theory Spec2Isabelle
  imports Complex_Main "HOL-Library.Product_Lexorder"
begin

section \<open>Values\<close>

text \<open>
  Identifier types are strings at run time (\<^verbatim>\<open>IdentifierType\<close> is a \<^verbatim>\<open>Literal\<close> of seven
  strings, and every resolver entry point also accepts a plain \<^verbatim>\<open>str\<close>), so they are
  strings here.  A Python string is modelled by its UTF-8 bytes: SQLite compares text
  bytewise, and the detector's character classes are ASCII ranges.

  A \<^verbatim>\<open>datetime.date\<close> is the triple (year, month, day).  The \<^verbatim>\<open>sqlite3\<close> module stores
  a date as its ISO text \<^verbatim>\<open>YYYY-MM-DD\<close> with zero-padded fields, and SQLite compares such
  texts bytewise, which is the lexicographic order of the triple.
\<close>

type_synonym SecurityId = int
type_synonym SourceId = int
type_synonym IdentifierType = string
type_synonym date = "nat \<times> nat \<times> nat"

section \<open>Identifier type detection (\<^verbatim>\<open>core/identifier.py\<close>)\<close>

text \<open>
  Each of the five regular expressions is \<^verbatim>\<open>^\<close>, a fixed sequence of character classes,
  and \<^verbatim>\<open>$\<close>.  A pattern is therefore the list of its classes, one per position.
\<close>

datatype char_class = Lit char | Upper | Digit | UpperDigit

definition is_upper :: "char \<Rightarrow> bool" where
  "is_upper x = (65 \<le> (of_char x :: nat) \<and> (of_char x :: nat) \<le> 90)"

definition is_digit :: "char \<Rightarrow> bool" where
  "is_digit x = (48 \<le> (of_char x :: nat) \<and> (of_char x :: nat) \<le> 57)"

fun in_class :: "char_class \<Rightarrow> char \<Rightarrow> bool" where
  "in_class (Lit c) x = (x = c)"
| "in_class Upper x = is_upper x"
| "in_class Digit x = is_digit x"
| "in_class UpperDigit x = (is_upper x \<or> is_digit x)"

type_synonym pattern = "char_class list"

text \<open>
  \<^verbatim>\<open>pattern.match(s)\<close> for an anchored pattern.  Without \<^verbatim>\<open>re.MULTILINE\<close>, Python's \<^verbatim>\<open>$\<close>
  matches at the end of the string and also just before a newline that ends the string.
\<close>

fun re_match :: "pattern \<Rightarrow> string \<Rightarrow> bool" where
  "re_match [] s = (s = [] \<or> s = [CHR 0x0A])"
| "re_match (c # cs) [] = False"
| "re_match (c # cs) (x # xs) = (in_class c x \<and> re_match cs xs)"

definition rep :: "nat \<Rightarrow> char_class \<Rightarrow> pattern" where
  "rep n c = replicate n c"

definition FIGI_pattern :: pattern where
  "FIGI_pattern = [Lit CHR ''B'', Lit CHR ''B'', Lit CHR ''G''] @ rep 9 UpperDigit"

definition ISIN_pattern :: pattern where
  "ISIN_pattern = rep 2 Upper @ rep 9 UpperDigit @ [Digit]"

definition CUSIP_pattern :: pattern where
  "CUSIP_pattern = rep 9 UpperDigit"

definition SEDOL_pattern :: pattern where
  "SEDOL_pattern = rep 7 UpperDigit"

definition JP_CODE_pattern :: pattern where
  "JP_CODE_pattern = rep 4 Digit"

definition IDENTIFIER_PATTERNS :: "IdentifierType \<rightharpoonup> pattern" where
  "IDENTIFIER_PATTERNS = map_of
     [(''FIGI'', FIGI_pattern),
      (''ISIN'', ISIN_pattern),
      (''CUSIP'', CUSIP_pattern),
      (''SEDOL'', SEDOL_pattern),
      (''JP_CODE'', JP_CODE_pattern)]"

definition DETECTION_ORDER :: "IdentifierType list" where
  "DETECTION_ORDER = [''FIGI'', ''ISIN'', ''CUSIP'', ''SEDOL'', ''JP_CODE'']"

definition TICKER_TYPES :: "IdentifierType list" where
  "TICKER_TYPES = [''TICKER_YAHOO'', ''TICKER_BBG'']"

text \<open>The \<^verbatim>\<open>for id_type in DETECTION_ORDER\<close> loop of \<^verbatim>\<open>detect_identifier_type\<close>.\<close>

fun detect_loop :: "IdentifierType list \<Rightarrow> string \<Rightarrow> IdentifierType option" where
  "detect_loop [] v = None"
| "detect_loop (id_type # rest) v =
     (case IDENTIFIER_PATTERNS id_type of
        None \<Rightarrow> detect_loop rest v
      | Some p \<Rightarrow> if re_match p v then Some id_type else detect_loop rest v)"

definition detect_identifier_type :: "string \<Rightarrow> IdentifierType option" where
  "detect_identifier_type identifier_value =
     (if identifier_value = [] then None
      else detect_loop DETECTION_ORDER identifier_value)"

text \<open>A string matches the pattern registered for a type.\<close>

definition matches_type :: "IdentifierType \<Rightarrow> string \<Rightarrow> bool" where
  "matches_type t v = (case IDENTIFIER_PATTERNS t of None \<Rightarrow> False | Some p \<Rightarrow> re_match p v)"

section \<open>The stored data (\<^verbatim>\<open>core/schema.py\<close>)\<close>

text \<open>
  One record per table row, with the columns of the \<^verbatim>\<open>CREATE TABLE\<close> statements.  The
  \<^verbatim>\<open>created_at\<close> and \<^verbatim>\<open>updated_at\<close> columns, filled by \<^verbatim>\<open>CURRENT_TIMESTAMP\<close>, are read
  by none of the statements below and are left out.  A nullable column is an option.
  The priority and the activity flag of a data source are integers, as
  \<^verbatim>\<open>DataSourceDict\<close> declares the priority and as the schema's defaults (100 and 1) give them.
\<close>

record security_row =
  s_security_id :: SecurityId
  s_name :: string
  s_description :: "string option"
  s_asset_class :: "string option"
  s_currency :: "string option"

record identifier_type_row =
  it_type_code :: string
  it_type_name :: string
  it_description :: "string option"
  it_pattern :: "string option"

record security_identifier_row =
  si_id :: int
  si_security_id :: SecurityId
  si_identifier_type :: IdentifierType
  si_identifier_value :: string
  si_valid_from :: "date option"
  si_valid_to :: "date option"
  si_is_primary :: int

record data_source_row =
  ds_source_id :: SourceId
  ds_source_code :: string
  ds_source_type :: string
  ds_description :: "string option"
  ds_priority :: int
  ds_is_active :: int

record price_row =
  p_id :: int
  p_security_id :: SecurityId
  p_source_id :: SourceId
  p_price_date :: date
  p_open :: "real option"
  p_high :: "real option"
  p_low :: "real option"
  p_close :: real
  p_volume :: "int option"
  p_adjusted_close :: "real option"

record factor_row =
  fd_id :: int
  fd_security_id :: SecurityId
  fd_factor_id :: int
  fd_source_id :: SourceId
  fd_as_of_date :: date
  fd_value_numeric :: "real option"
  fd_value_text :: "string option"

text \<open>
  The contents of a database whose tables exist.  Every table is the list of its rows in
  rowid order, which is also the order in which a statement without \<^verbatim>\<open>ORDER BY\<close> is taken
  to scan it.  The \<^verbatim>\<open>seq_\<close> fields are the \<^verbatim>\<open>sqlite_sequence\<close> entries of the
  \<^verbatim>\<open>AUTOINCREMENT\<close> keys.  The tables \<^verbatim>\<open>factor_definitions\<close>, \<^verbatim>\<open>trades\<close> and
  \<^verbatim>\<open>portfolio_holdings\<close> are touched by no statement below and are left out.
\<close>

record tables =
  securities :: "security_row list"
  seq_securities :: int
  identifier_types :: "identifier_type_row list"
  security_identifiers :: "security_identifier_row list"
  seq_security_identifiers :: int
  data_sources :: "data_source_row list"
  seq_data_sources :: int
  price_data :: "price_row list"
  factor_data :: "factor_row list"

text \<open>
  The key an \<^verbatim>\<open>INTEGER PRIMARY KEY AUTOINCREMENT\<close> column receives: one more than the
  largest key the table holds or has ever held.  Keys are unbounded integers here.
\<close>

definition next_rowid :: "int \<Rightarrow> int list \<Rightarrow> int" where
  "next_rowid seq ids = fold max ids seq + 1"

subsection \<open>\<^verbatim>\<open>ORDER BY\<close> and \<^verbatim>\<open>LIMIT\<close>\<close>

text \<open>
  \<^verbatim>\<open>ORDER BY\<close> is a stable insertion sort: \<open>precedes a b\<close> says that \<open>a\<close> sorts strictly
  before \<open>b\<close>, and rows that the ordering does not separate keep their scan order.
  \<^verbatim>\<open>LIMIT 1\<close> is \<open>take 1\<close>.
\<close>

fun insert_by :: "('a \<Rightarrow> 'a \<Rightarrow> bool) \<Rightarrow> 'a \<Rightarrow> 'a list \<Rightarrow> 'a list" where
  "insert_by precedes x [] = [x]"
| "insert_by precedes x (y # ys) =
     (if precedes y x then y # insert_by precedes x ys else x # y # ys)"

definition order_by :: "('a \<Rightarrow> 'a \<Rightarrow> bool) \<Rightarrow> 'a list \<Rightarrow> 'a list" where
  "order_by precedes xs = foldr (insert_by precedes) xs []"

subsection \<open>Default data and \<^verbatim>\<open>initialize_schema\<close>\<close>

definition DEFAULT_IDENTIFIER_TYPES :: "identifier_type_row list" where
  "DEFAULT_IDENTIFIER_TYPES =
    [\<lparr>it_type_code = ''ISIN'',
      it_type_name = ''International Securities Identification Number'',
      it_description = Some ''12-character alphanumeric code'',
      it_pattern = Some ''^[A-Z]{2}[A-Z0-9]{9}[0-9]$''\<rparr>,
     \<lparr>it_type_code = ''CUSIP'',
      it_type_name = ''Committee on Uniform Securities Identification Procedures'',
      it_description = Some ''9-character alphanumeric code'',
      it_pattern = Some ''^[A-Z0-9]{9}$''\<rparr>,
     \<lparr>it_type_code = ''SEDOL'',
      it_type_name = ''Stock Exchange Daily Official List'',
      it_description = Some ''7-character alphanumeric code'',
      it_pattern = Some ''^[A-Z0-9]{7}$''\<rparr>,
     \<lparr>it_type_code = ''TICKER_BBG'',
      it_type_name = ''Bloomberg Ticker'',
      it_description = Some ''Bloomberg ticker symbol'',
      it_pattern = None\<rparr>,
     \<lparr>it_type_code = ''TICKER_YAHOO'',
      it_type_name = ''Yahoo Finance Ticker'',
      it_description = Some ''Yahoo Finance ticker symbol'',
      it_pattern = None\<rparr>,
     \<lparr>it_type_code = ''JP_CODE'',
      it_type_name = ''Japanese Security Code'',
      it_description = Some ''4-digit Japanese security code'',
      it_pattern = Some ''^[0-9]{4}$''\<rparr>,
     \<lparr>it_type_code = ''FIGI'',
      it_type_name = ''Financial Instrument Global Identifier'',
      it_description = Some ''12-character identifier'',
      it_pattern = Some ''^[A-Z]{3}[A-Z0-9]{9}$''\<rparr>]"

definition DEFAULT_DATA_SOURCES :: "(string \<times> string \<times> string \<times> int) list" where
  "DEFAULT_DATA_SOURCES =
    [(''YFINANCE'', ''API'', ''Yahoo Finance API'', 10),
     (''EXCEL_IMPORT'', ''FILE'', ''Excel file import'', 50),
     (''MANUAL_ENTRY'', ''MANUAL'', ''Manual data entry'', 100),
     (''DERIVED_CALC'', ''DERIVED'', ''Calculated/derived values'', 200)]"

text \<open>
  \<^verbatim>\<open>INSERT OR IGNORE\<close>: a row whose key (\<^verbatim>\<open>type_code\<close>, respectively the unique
  \<^verbatim>\<open>source_code\<close>) is already present is skipped and leaves the table as it was.
\<close>

definition insert_or_ignore_identifier_type :: "identifier_type_row \<Rightarrow> tables \<Rightarrow> tables" where
  "insert_or_ignore_identifier_type r T =
     (if it_type_code r \<in> set (map it_type_code (identifier_types T)) then T
      else T\<lparr>identifier_types := identifier_types T @ [r]\<rparr>)"

definition insert_or_ignore_data_source ::
  "string \<times> string \<times> string \<times> int \<Rightarrow> tables \<Rightarrow> tables" where
  "insert_or_ignore_data_source r T =
     (case r of (code, type, description, priority) \<Rightarrow>
        if code \<in> set (map ds_source_code (data_sources T)) then T
        else
          let source_id = next_rowid (seq_data_sources T) (map ds_source_id (data_sources T))
          in T\<lparr>data_sources := data_sources T @
                  [\<lparr>ds_source_id = source_id, ds_source_code = code, ds_source_type = type,
                    ds_description = Some description, ds_priority = priority,
                    ds_is_active = 1\<rparr>],
               seq_data_sources := source_id\<rparr>)"

text \<open>
  \<^verbatim>\<open>initialize_schema\<close>: the \<^verbatim>\<open>CREATE ... IF NOT EXISTS\<close> statements leave existing contents
  alone; the two \<^verbatim>\<open>executemany\<close> calls insert the default rows that are missing.
\<close>

definition initialize_schema :: "tables \<Rightarrow> tables" where
  "initialize_schema T =
     fold insert_or_ignore_data_source DEFAULT_DATA_SOURCES
       (fold insert_or_ignore_identifier_type DEFAULT_IDENTIFIER_TYPES T)"

subsection \<open>The \<^verbatim>\<open>best_prices\<close> view\<close>

text \<open>\<^verbatim>\<open>price_data p JOIN data_sources ds ON p.source_id = ds.source_id\<close>.\<close>

definition price_join :: "tables \<Rightarrow> (price_row \<times> data_source_row) list" where
  "price_join T =
     concat (map (\<lambda>p. map (\<lambda>ds. (p, ds))
                          (filter (\<lambda>ds. p_source_id p = ds_source_id ds) (data_sources T)))
                 (price_data T))"

text \<open>
  The correlated subquery: the \<^verbatim>\<open>id\<close> of the first row, by ascending source priority, among
  the rows of active sources for the security and date of \<open>p\<close>.
\<close>

definition priority_asc :: "price_row \<times> data_source_row \<Rightarrow> price_row \<times> data_source_row \<Rightarrow> bool" where
  "priority_asc a b = (ds_priority (snd a) < ds_priority (snd b))"

definition best_price_candidates ::
  "tables \<Rightarrow> SecurityId \<Rightarrow> date \<Rightarrow> (price_row \<times> data_source_row) list" where
  "best_price_candidates T security_id price_date =
     filter (\<lambda>(p2, ds2). p_security_id p2 = security_id \<and> p_price_date p2 = price_date
                          \<and> ds_is_active ds2 = 1)
            (price_join T)"

definition best_price_id :: "tables \<Rightarrow> price_row \<Rightarrow> int list" where
  "best_price_id T p =
     map (\<lambda>(p2, ds2). p_id p2)
         (take 1 (order_by priority_asc
                    (best_price_candidates T (p_security_id p) (p_price_date p))))"

text \<open>The rows the view keeps, before the projection to its columns.\<close>

definition best_prices_rows :: "tables \<Rightarrow> (price_row \<times> data_source_row) list" where
  "best_prices_rows T =
     filter (\<lambda>(p, ds). ds_is_active ds = 1 \<and> [p_id p] = best_price_id T p) (price_join T)"

record best_price_row =
  bp_security_id :: SecurityId
  bp_price_date :: date
  bp_open :: "real option"
  bp_high :: "real option"
  bp_low :: "real option"
  bp_close :: real
  bp_volume :: "int option"
  bp_adjusted_close :: "real option"
  bp_source_code :: string
  bp_source_priority :: int

definition best_prices :: "tables \<Rightarrow> best_price_row list" where
  "best_prices T =
     map (\<lambda>(p, ds). \<lparr>bp_security_id = p_security_id p, bp_price_date = p_price_date p,
                      bp_open = p_open p, bp_high = p_high p, bp_low = p_low p,
                      bp_close = p_close p, bp_volume = p_volume p,
                      bp_adjusted_close = p_adjusted_close p,
                      bp_source_code = ds_source_code ds,
                      bp_source_priority = ds_priority ds\<rparr>)
         (best_prices_rows T)"

text \<open>The rows of the view for one security and date.\<close>

definition best_prices_for ::
  "tables \<Rightarrow> SecurityId \<Rightarrow> date \<Rightarrow> (price_row \<times> data_source_row) list" where
  "best_prices_for T security_id price_date =
     filter (\<lambda>(p, ds). p_security_id p = security_id \<and> p_price_date p = price_date)
            (best_prices_rows T)"

section \<open>The connection (\<^verbatim>\<open>core/connection.py\<close>)\<close>

datatype error =
    ValueError string
  | IdentifierNotFoundError string string
  | DuplicateSecurityError string string
  | ValidationError string string
  | DatabaseError string
  | TransactionError error

text \<open>
  \<open>db_file\<close> is what the database holds committed; \<open>conn\<close> is \<^verbatim>\<open>_conn\<close>: \<open>None\<close> while
  the connection is not open, otherwise the contents as the open connection sees them,
  its uncommitted changes included.  Opening the database itself is taken to succeed.
\<close>

record DatabaseConnection =
  db_file :: tables
  conn :: "tables option"
  auto_initialize :: bool
  initialized :: bool

definition is_connected :: "DatabaseConnection \<Rightarrow> bool" where
  "is_connected db = (conn db \<noteq> None)"

definition view :: "DatabaseConnection \<Rightarrow> tables" where
  "view db = (case conn db of None \<Rightarrow> db_file db | Some T \<Rightarrow> T)"

text \<open>
  The body of \<^verbatim>\<open>initialize\<close> for an open connection: \<^verbatim>\<open>initialize_schema\<close>, which ends
  with a commit, and the \<^verbatim>\<open>_initialized\<close> flag.
\<close>

definition run_initialize :: "DatabaseConnection \<Rightarrow> DatabaseConnection" where
  "run_initialize db =
     (let T = initialize_schema (view db)
      in db\<lparr>db_file := T, conn := Some T, initialized := True\<rparr>)"

definition connect :: "DatabaseConnection \<Rightarrow> DatabaseConnection" where
  "connect db =
     (case conn db of
        Some T \<Rightarrow> db
      | None \<Rightarrow>
          let db1 = db\<lparr>conn := Some (db_file db)\<rparr>
          in if auto_initialize db1 \<and> \<not> initialized db1 then run_initialize db1 else db1)"

text \<open>
  \<^verbatim>\<open>initialize\<close> itself: without a connection it only calls \<^verbatim>\<open>connect\<close>, which
  initialises as above.
\<close>

definition initialize :: "DatabaseConnection \<Rightarrow> DatabaseConnection" where
  "initialize db = (case conn db of None \<Rightarrow> connect db | Some T \<Rightarrow> run_initialize db)"

definition commit :: "DatabaseConnection \<Rightarrow> DatabaseConnection" where
  "commit db = (case conn db of None \<Rightarrow> db | Some T \<Rightarrow> db\<lparr>db_file := T\<rparr>)"

definition rollback :: "DatabaseConnection \<Rightarrow> DatabaseConnection" where
  "rollback db = (case conn db of None \<Rightarrow> db | Some T \<Rightarrow> db\<lparr>conn := Some (db_file db)\<rparr>)"

text \<open>
  A statement is its effect on the table contents: an error that leaves them as they
  were (SQLite undoes a failed statement), or a result and the new contents.
  \<^verbatim>\<open>execute\<close> opens the connection when it is not open and runs the statement.
\<close>

type_synonym 'a statement = "tables \<Rightarrow> error + 'a \<times> tables"

definition execute ::
  "DatabaseConnection \<Rightarrow> 'a statement \<Rightarrow> (error + 'a) \<times> DatabaseConnection" where
  "execute db stmt =
     (let db1 = connect db
      in case stmt (view db1) of
           Inl e \<Rightarrow> (Inl e, db1)
         | Inr (r, T) \<Rightarrow> (Inr r, db1\<lparr>conn := Some T\<rparr>))"

text \<open>
  A query is the list of rows a \<^verbatim>\<open>SELECT\<close> returns; the queries below cannot fail on
  existing tables and change nothing.  \<^verbatim>\<open>fetchone\<close> is \<^verbatim>\<open>execute\<close> on the query, which
  opens the connection when it is not open, followed by the first row of the result.
\<close>

type_synonym 'r query = "tables \<Rightarrow> 'r list"

definition fetchone :: "DatabaseConnection \<Rightarrow> 'r query \<Rightarrow> 'r option \<times> DatabaseConnection" where
  "fetchone db q =
     (let db1 = connect db
      in (case q (view db1) of [] \<Rightarrow> None | r # _ \<Rightarrow> Some r, db1))"

text \<open>
  The \<^verbatim>\<open>transaction\<close> context manager around a block: commit when the block returns,
  rollback and \<^verbatim>\<open>TransactionError\<close> when it raises.
\<close>

definition transaction ::
  "DatabaseConnection \<Rightarrow> (DatabaseConnection \<Rightarrow> (error + 'a) \<times> DatabaseConnection)
     \<Rightarrow> (error + 'a) \<times> DatabaseConnection" where
  "transaction db block =
     (case block (connect db) of
        (Inr r, db1) \<Rightarrow> (Inr r, commit db1)
      | (Inl e, db1) \<Rightarrow> (Inl (TransactionError e), rollback db1))"

section \<open>The security repository (\<^verbatim>\<open>core/repositories/security.py\<close>)\<close>

text \<open>\<^verbatim>\<open>INSERT INTO securities (name, description, asset_class, currency)\<close>.\<close>

definition insert_security ::
  "string \<Rightarrow> string option \<Rightarrow> string option \<Rightarrow> string option \<Rightarrow> SecurityId statement" where
  "insert_security name description asset_class currency T =
     (let security_id = next_rowid (seq_securities T) (map s_security_id (securities T))
      in Inr (security_id,
              T\<lparr>securities := securities T @
                   [\<lparr>s_security_id = security_id, s_name = name, s_description = description,
                     s_asset_class = asset_class, s_currency = currency\<rparr>],
                seq_securities := security_id\<rparr>))"

text \<open>
  The duplicate check of \<^verbatim>\<open>add_identifier\<close>.  Its last condition is
  \<^verbatim>\<open>(valid_from IS NULL OR valid_from = ?)\<close>: a row without \<^verbatim>\<open>valid_from\<close> satisfies it
  whatever the parameter is, and \<^verbatim>\<open>valid_from = ?\<close> is not true when the parameter is NULL.
\<close>

definition duplicate_where ::
  "IdentifierType \<Rightarrow> string \<Rightarrow> date option \<Rightarrow> security_identifier_row \<Rightarrow> bool" where
  "duplicate_where identifier_type identifier_value valid_from r =
     (si_identifier_type r = identifier_type \<and> si_identifier_value r = identifier_value \<and>
      (case si_valid_from r of
         None \<Rightarrow> True
       | Some f \<Rightarrow> (case valid_from of None \<Rightarrow> False | Some g \<Rightarrow> f = g)))"

text \<open>
  The \<^verbatim>\<open>SELECT\<close> of the check has no \<^verbatim>\<open>ORDER BY\<close>.  SQLite answers it from the index of
  the \<^verbatim>\<open>UNIQUE\<close> constraint, once for each alternative of the \<^verbatim>\<open>OR\<close>: first come the
  rows without \<^verbatim>\<open>valid_from\<close>, in rowid order, then the row with the requested
  \<^verbatim>\<open>valid_from\<close>.
\<close>

definition select_duplicate ::
  "IdentifierType \<Rightarrow> string \<Rightarrow> date option \<Rightarrow> SecurityId query" where
  "select_duplicate identifier_type identifier_value valid_from T =
     map si_security_id
       (filter (\<lambda>r. duplicate_where identifier_type identifier_value valid_from r \<and>
                     si_valid_from r = None)
               (security_identifiers T) @
        filter (\<lambda>r. duplicate_where identifier_type identifier_value valid_from r \<and>
                     si_valid_from r \<noteq> None)
               (security_identifiers T))"

text \<open>
  \<^verbatim>\<open>INSERT INTO security_identifiers\<close>, with the constraints of the table:
  \<^verbatim>\<open>UNIQUE (identifier_type, identifier_value, valid_from)\<close>, in which SQLite takes NULLs
  as distinct from each other, and the two foreign keys (\<^verbatim>\<open>connect\<close> switches
  \<^verbatim>\<open>foreign_keys\<close> on).  \<^verbatim>\<open>execute\<close> turns the \<^verbatim>\<open>sqlite3\<close> error into \<^verbatim>\<open>DatabaseError\<close>.
\<close>

definition unique_violation ::
  "IdentifierType \<Rightarrow> string \<Rightarrow> date option \<Rightarrow> tables \<Rightarrow> bool" where
  "unique_violation identifier_type identifier_value valid_from T =
     (case valid_from of
        None \<Rightarrow> False
      | Some d \<Rightarrow>
          list_ex (\<lambda>r. si_identifier_type r = identifier_type \<and>
                       si_identifier_value r = identifier_value \<and> si_valid_from r = Some d)
                  (security_identifiers T))"

definition foreign_key_violation :: "SecurityId \<Rightarrow> IdentifierType \<Rightarrow> tables \<Rightarrow> bool" where
  "foreign_key_violation security_id identifier_type T =
     (security_id \<notin> set (map s_security_id (securities T)) \<or>
      identifier_type \<notin> set (map it_type_code (identifier_types T)))"

definition insert_security_identifier ::
  "SecurityId \<Rightarrow> IdentifierType \<Rightarrow> string \<Rightarrow> int \<Rightarrow> date option \<Rightarrow> date option
     \<Rightarrow> int statement" where
  "insert_security_identifier security_id identifier_type identifier_value is_primary
       valid_from valid_to T =
     (if unique_violation identifier_type identifier_value valid_from T then
        Inl (DatabaseError (''SQL execution failed: UNIQUE constraint failed: '' @
               ''security_identifiers.identifier_type, '' @
               ''security_identifiers.identifier_value, security_identifiers.valid_from''))
      else if foreign_key_violation security_id identifier_type T then
        Inl (DatabaseError ''SQL execution failed: FOREIGN KEY constraint failed'')
      else
        let rowid = next_rowid (seq_security_identifiers T)
                               (map si_id (security_identifiers T))
        in Inr (rowid,
                T\<lparr>security_identifiers := security_identifiers T @
                     [\<lparr>si_id = rowid, si_security_id = security_id,
                       si_identifier_type = identifier_type,
                       si_identifier_value = identifier_value,
                       si_valid_from = valid_from, si_valid_to = valid_to,
                       si_is_primary = is_primary\<rparr>],
                  seq_security_identifiers := rowid\<rparr>))"

text \<open>\<^verbatim>\<open>SecurityRepository.create\<close>: the insert, then a commit.\<close>

definition create ::
  "DatabaseConnection \<Rightarrow> string \<Rightarrow> string option \<Rightarrow> string option \<Rightarrow> string option
     \<Rightarrow> (error + SecurityId) \<times> DatabaseConnection" where
  "create db name description asset_class currency =
     (case execute db (insert_security name description asset_class currency) of
        (Inl e, db1) \<Rightarrow> (Inl e, db1)
      | (Inr security_id, db1) \<Rightarrow> (Inr security_id, commit db1))"

text \<open>\<^verbatim>\<open>SecurityRepository.add_identifier\<close>.\<close>

definition add_identifier ::
  "DatabaseConnection \<Rightarrow> SecurityId \<Rightarrow> IdentifierType \<Rightarrow> string \<Rightarrow> bool
     \<Rightarrow> date option \<Rightarrow> date option \<Rightarrow> (error + unit) \<times> DatabaseConnection" where
  "add_identifier db security_id identifier_type identifier_value is_primary
       valid_from valid_to =
     (case fetchone db (select_duplicate identifier_type identifier_value valid_from) of
        (existing, db1) \<Rightarrow>
          if (case existing of None \<Rightarrow> False | Some sid \<Rightarrow> sid \<noteq> security_id) then
            (Inl (DuplicateSecurityError identifier_type identifier_value), db1)
          else
            (case execute db1
                    (insert_security_identifier security_id identifier_type identifier_value
                       (if is_primary then 1 else 0) valid_from valid_to) of
               (Inl e, db2) \<Rightarrow> (Inl e, db2)
             | (Inr rowid, db2) \<Rightarrow> (Inr (), commit db2)))"

text \<open>The security id the duplicate check of \<^verbatim>\<open>add_identifier\<close> fetches, if any.\<close>

definition first_duplicate ::
  "tables \<Rightarrow> IdentifierType \<Rightarrow> string \<Rightarrow> date option \<Rightarrow> SecurityId option" where
  "first_duplicate T t v vf =
     (case select_duplicate t v vf T of [] \<Rightarrow> None | sid # _ \<Rightarrow> Some sid)"

section \<open>The identifier resolver (\<^verbatim>\<open>core/identifier.py\<close>)\<close>

text \<open>
  The \<^verbatim>\<open>WHERE\<close> clause of \<^verbatim>\<open>resolve\<close>; the date parameter is never NULL, because
  \<^verbatim>\<open>resolve\<close> replaces a missing \<^verbatim>\<open>as_of\<close> by today's date.
\<close>

definition interval_contains :: "security_identifier_row \<Rightarrow> date \<Rightarrow> bool" where
  "interval_contains r as_of =
     ((case si_valid_from r of None \<Rightarrow> True | Some f \<Rightarrow> f \<le> as_of) \<and>
      (case si_valid_to r of None \<Rightarrow> True | Some u \<Rightarrow> as_of < u))"

definition resolve_where ::
  "IdentifierType \<Rightarrow> string \<Rightarrow> date \<Rightarrow> security_identifier_row \<Rightarrow> bool" where
  "resolve_where identifier_type identifier_value as_of r =
     (si_identifier_type r = identifier_type \<and> si_identifier_value r = identifier_value \<and>
      interval_contains r as_of)"

text \<open>\<^verbatim>\<open>ORDER BY valid_from DESC NULLS LAST\<close>: \<open>a\<close> sorts strictly before \<open>b\<close>.\<close>

definition desc_nulls_last :: "'a::linorder option \<Rightarrow> 'a option \<Rightarrow> bool" where
  "desc_nulls_last a b =
     (case a of
        None \<Rightarrow> False
      | Some x \<Rightarrow> (case b of None \<Rightarrow> True | Some y \<Rightarrow> y < x))"

definition valid_from_desc :: "security_identifier_row \<Rightarrow> security_identifier_row \<Rightarrow> bool" where
  "valid_from_desc a b = desc_nulls_last (si_valid_from a) (si_valid_from b)"

definition select_resolve :: "IdentifierType \<Rightarrow> string \<Rightarrow> date \<Rightarrow> SecurityId query" where
  "select_resolve identifier_type identifier_value as_of T =
     map si_security_id
       (take 1 (order_by valid_from_desc
                  (filter (resolve_where identifier_type identifier_value as_of)
                          (security_identifiers T))))"

text \<open>
  The resolver's methods.  The last argument \<open>today\<close> is the value of \<^verbatim>\<open>date.today()\<close>
  during the call; \<open>as_of = None\<close> is the omitted argument.
\<close>

definition resolve ::
  "DatabaseConnection \<Rightarrow> string \<Rightarrow> IdentifierType \<Rightarrow> date option \<Rightarrow> date
     \<Rightarrow> SecurityId option \<times> DatabaseConnection" where
  "resolve db identifier_value identifier_type as_of today =
     fetchone db
       (select_resolve identifier_type identifier_value
          (case as_of of None \<Rightarrow> today | Some d \<Rightarrow> d))"

text \<open>The \<^verbatim>\<open>for ticker_type in TICKER_TYPES\<close> loop of \<^verbatim>\<open>resolve_auto\<close>.\<close>

fun ticker_loop ::
  "IdentifierType list \<Rightarrow> DatabaseConnection \<Rightarrow> string \<Rightarrow> date option \<Rightarrow> date
     \<Rightarrow> SecurityId option \<times> DatabaseConnection" where
  "ticker_loop [] db identifier_value as_of today = (None, db)"
| "ticker_loop (ticker_type # rest) db identifier_value as_of today =
     (case resolve db identifier_value ticker_type as_of today of
        (Some r, db1) \<Rightarrow> (Some r, db1)
      | (None, db1) \<Rightarrow> ticker_loop rest db1 identifier_value as_of today)"

definition resolve_auto ::
  "DatabaseConnection \<Rightarrow> string \<Rightarrow> date option \<Rightarrow> date
     \<Rightarrow> SecurityId option \<times> DatabaseConnection" where
  "resolve_auto db identifier_value as_of today =
     (case detect_identifier_type identifier_value of
        None \<Rightarrow> ticker_loop TICKER_TYPES db identifier_value as_of today
      | Some detected_type \<Rightarrow>
          (case resolve db identifier_value detected_type as_of today of
             (Some r, db1) \<Rightarrow> (Some r, db1)
           | (None, db1) \<Rightarrow> ticker_loop TICKER_TYPES db1 identifier_value as_of today))"

definition resolve_or_create ::
  "DatabaseConnection \<Rightarrow> string \<Rightarrow> IdentifierType \<Rightarrow> string \<Rightarrow> string option
     \<Rightarrow> string option \<Rightarrow> string option \<Rightarrow> date
     \<Rightarrow> (error + SecurityId) \<times> DatabaseConnection" where
  "resolve_or_create db identifier_value identifier_type security_name description
       asset_class currency today =
     (case resolve db identifier_value identifier_type None today of
        (Some existing_id, db1) \<Rightarrow> (Inr existing_id, db1)
      | (None, db1) \<Rightarrow>
          if security_name = [] then
            (Inl (ValueError (''security_name is required when creating new security for '' @
                              identifier_type @ ''='' @ identifier_value)), db1)
          else
            (case create db1 security_name description asset_class currency of
               (Inl e, db2) \<Rightarrow> (Inl e, db2)
             | (Inr security_id, db2) \<Rightarrow>
                 (case add_identifier db2 security_id identifier_type identifier_value
                         False None None of
                    (Inl e, db3) \<Rightarrow> (Inl e, db3)
                  | (Inr u, db3) \<Rightarrow> (Inr security_id, db3))))"

definition resolve_or_raise ::
  "DatabaseConnection \<Rightarrow> string \<Rightarrow> IdentifierType \<Rightarrow> date option \<Rightarrow> date
     \<Rightarrow> (error + SecurityId) \<times> DatabaseConnection" where
  "resolve_or_raise db identifier_value identifier_type as_of today =
     (case resolve db identifier_value identifier_type as_of today of
        (None, db1) \<Rightarrow> (Inl (IdentifierNotFoundError identifier_type identifier_value), db1)
      | (Some r, db1) \<Rightarrow> (Inr r, db1))"

section \<open>Example states\<close>

text \<open>
  A database nobody has connected to yet, and what \<^verbatim>\<open>connect\<close> makes of it: an open
  connection on the tables holding the default rows.
\<close>

definition empty_tables :: tables where
  "empty_tables =
     \<lparr>securities = [], seq_securities = 0, identifier_types = [],
      security_identifiers = [], seq_security_identifiers = 0,
      data_sources = [], seq_data_sources = 0, price_data = [], factor_data = []\<rparr>"

definition fresh_db :: DatabaseConnection where
  "fresh_db = \<lparr>db_file = empty_tables, conn = None, auto_initialize = True, initialized = False\<rparr>"

definition initial_tables :: tables where
  "initial_tables =
     \<lparr>securities = [], seq_securities = 0, identifier_types = DEFAULT_IDENTIFIER_TYPES,
      security_identifiers = [], seq_security_identifiers = 0,
      data_sources =
        [\<lparr>ds_source_id = 1, ds_source_code = ''YFINANCE'', ds_source_type = ''API'',
          ds_description = Some ''Yahoo Finance API'', ds_priority = 10, ds_is_active = 1\<rparr>,
         \<lparr>ds_source_id = 2, ds_source_code = ''EXCEL_IMPORT'', ds_source_type = ''FILE'',
          ds_description = Some ''Excel file import'', ds_priority = 50, ds_is_active = 1\<rparr>,
         \<lparr>ds_source_id = 3, ds_source_code = ''MANUAL_ENTRY'', ds_source_type = ''MANUAL'',
          ds_description = Some ''Manual data entry'', ds_priority = 100, ds_is_active = 1\<rparr>,
         \<lparr>ds_source_id = 4, ds_source_code = ''DERIVED_CALC'', ds_source_type = ''DERIVED'',
          ds_description = Some ''Calculated/derived values'', ds_priority = 200,
          ds_is_active = 1\<rparr>],
      seq_data_sources = 4, price_data = [], factor_data = []\<rparr>"

definition open_db :: "tables \<Rightarrow> DatabaseConnection" where
  "open_db T = \<lparr>db_file = T, conn = Some T, auto_initialize = True, initialized = True\<rparr>"

text \<open>
  An initialised database from which the default source \<^verbatim>\<open>DERIVED_CALC\<close> has been removed,
  about to be opened through a new connection object.
\<close>

definition reopened_db :: DatabaseConnection where
  "reopened_db =
     \<lparr>db_file = initial_tables
        \<lparr>data_sources :=
           [\<lparr>ds_source_id = 1, ds_source_code = ''YFINANCE'', ds_source_type = ''API'',
             ds_description = Some ''Yahoo Finance API'', ds_priority = 10, ds_is_active = 1\<rparr>,
            \<lparr>ds_source_id = 2, ds_source_code = ''EXCEL_IMPORT'', ds_source_type = ''FILE'',
             ds_description = Some ''Excel file import'', ds_priority = 50, ds_is_active = 1\<rparr>,
            \<lparr>ds_source_id = 3, ds_source_code = ''MANUAL_ENTRY'', ds_source_type = ''MANUAL'',
             ds_description = Some ''Manual data entry'', ds_priority = 100,
             ds_is_active = 1\<rparr>]\<rparr>,
      conn = None, auto_initialize = True, initialized = False\<rparr>"

text \<open>
  The point-in-time scenario of the integration tests: one security whose ticker was
  \<^verbatim>\<open>OLD.T\<close> from 2020-01-01 to 2023-12-31 and is \<^verbatim>\<open>NEW.T\<close> from 2024-01-01 on.
\<close>

definition temporal_tables :: tables where
  "temporal_tables = initial_tables
     \<lparr>securities :=
        [\<lparr>s_security_id = 1, s_name = ''Test Corp'', s_description = None,
          s_asset_class = None, s_currency = None\<rparr>],
      seq_securities := 1,
      security_identifiers :=
        [\<lparr>si_id = 1, si_security_id = 1, si_identifier_type = ''TICKER_YAHOO'',
          si_identifier_value = ''OLD.T'', si_valid_from = Some (2020, 1, 1),
          si_valid_to = Some (2023, 12, 31), si_is_primary = 0\<rparr>,
         \<lparr>si_id = 2, si_security_id = 1, si_identifier_type = ''TICKER_YAHOO'',
          si_identifier_value = ''NEW.T'', si_valid_from = Some (2024, 1, 1),
          si_valid_to = None, si_is_primary = 0\<rparr>],
      seq_security_identifiers := 2\<rparr>"

text \<open>
  Two securities, one known by its Japanese code and one by its Yahoo ticker only.
\<close>

definition ticker_tables :: tables where
  "ticker_tables = initial_tables
     \<lparr>securities :=
        [\<lparr>s_security_id = 1, s_name = ''Toyota Motor Corp'', s_description = None,
          s_asset_class = None, s_currency = Some ''JPY''\<rparr>,
         \<lparr>s_security_id = 2, s_name = ''Apple Inc'', s_description = None,
          s_asset_class = None, s_currency = Some ''USD''\<rparr>],
      seq_securities := 2,
      security_identifiers :=
        [\<lparr>si_id = 1, si_security_id = 1, si_identifier_type = ''JP_CODE'',
          si_identifier_value = ''7203'', si_valid_from = None,
          si_valid_to = None, si_is_primary = 0\<rparr>,
         \<lparr>si_id = 2, si_security_id = 2, si_identifier_type = ''TICKER_YAHOO'',
          si_identifier_value = ''AAPL'', si_valid_from = None,
          si_valid_to = None, si_is_primary = 0\<rparr>],
      seq_security_identifiers := 2\<rparr>"

text \<open>
  The duplicate-claim scenario of the repository tests: two securities, the first of
  which has registered an ISIN without validity dates.
\<close>

definition isin_tables :: tables where
  "isin_tables = initial_tables
     \<lparr>securities :=
        [\<lparr>s_security_id = 1, s_name = ''Security 1'', s_description = None,
          s_asset_class = None, s_currency = None\<rparr>,
         \<lparr>s_security_id = 2, s_name = ''Security 2'', s_description = None,
          s_asset_class = None, s_currency = None\<rparr>],
      seq_securities := 2,
      security_identifiers :=
        [\<lparr>si_id = 1, si_security_id = 1, si_identifier_type = ''ISIN'',
          si_identifier_value = ''US0378331005'', si_valid_from = None,
          si_valid_to = None, si_is_primary = 0\<rparr>],
      seq_security_identifiers := 1\<rparr>"

text \<open>
  Two securities claiming the same ISIN: the second registered it from 2024-03-15 on, and
  afterwards the first registered it without validity dates.
\<close>

definition dated_first_tables :: tables where
  "dated_first_tables = initial_tables
     \<lparr>securities :=
        [\<lparr>s_security_id = 1, s_name = ''Security 1'', s_description = None,
          s_asset_class = None, s_currency = None\<rparr>,
         \<lparr>s_security_id = 2, s_name = ''Security 2'', s_description = None,
          s_asset_class = None, s_currency = None\<rparr>],
      seq_securities := 2,
      security_identifiers :=
        [\<lparr>si_id = 1, si_security_id = 2, si_identifier_type = ''ISIN'',
          si_identifier_value = ''US0378331005'', si_valid_from = Some (2024, 3, 15),
          si_valid_to = None, si_is_primary = 0\<rparr>,
         \<lparr>si_id = 2, si_security_id = 1, si_identifier_type = ''ISIN'',
          si_identifier_value = ''US0378331005'', si_valid_from = None,
          si_valid_to = None, si_is_primary = 0\<rparr>],
      seq_security_identifiers := 2\<rparr>"

text \<open>
  A security whose Japanese code was registered without a start date and has expired at
  the end of 2023.
\<close>

definition expired_tables :: tables where
  "expired_tables = initial_tables
     \<lparr>securities :=
        [\<lparr>s_security_id = 1, s_name = ''Toyota'', s_description = None,
          s_asset_class = None, s_currency = None\<rparr>],
      seq_securities := 1,
      security_identifiers :=
        [\<lparr>si_id = 1, si_security_id = 1, si_identifier_type = ''JP_CODE'',
          si_identifier_value = ''7203'', si_valid_from = None,
          si_valid_to = Some (2023, 12, 31), si_is_primary = 0\<rparr>],
      seq_security_identifiers := 1\<rparr>"

text \<open>
  The overlay scenario: two active sources, of priorities 50 and 10, report a close price
  for the same security and date; and the same tables after the priority-10 source has
  been deactivated.
\<close>

definition overlay_tables :: tables where
  "overlay_tables = initial_tables
     \<lparr>securities :=
        [\<lparr>s_security_id = 1, s_name = ''Toyota Motor Corp'', s_description = None,
          s_asset_class = None, s_currency = Some ''JPY''\<rparr>],
      seq_securities := 1,
      price_data :=
        [\<lparr>p_id = 1, p_security_id = 1, p_source_id = 2, p_price_date = (2024, 3, 15),
          p_open = None, p_high = None, p_low = None, p_close = 2510, p_volume = None,
          p_adjusted_close = None\<rparr>,
         \<lparr>p_id = 2, p_security_id = 1, p_source_id = 1, p_price_date = (2024, 3, 15),
          p_open = None, p_high = None, p_low = None, p_close = 2500, p_volume = None,
          p_adjusted_close = None\<rparr>]\<rparr>"

definition overlay_tables_deactivated :: tables where
  "overlay_tables_deactivated = overlay_tables
     \<lparr>data_sources :=
        [\<lparr>ds_source_id = 1, ds_source_code = ''YFINANCE'', ds_source_type = ''API'',
          ds_description = Some ''Yahoo Finance API'', ds_priority = 10, ds_is_active = 0\<rparr>,
         \<lparr>ds_source_id = 2, ds_source_code = ''EXCEL_IMPORT'', ds_source_type = ''FILE'',
          ds_description = Some ''Excel file import'', ds_priority = 50, ds_is_active = 1\<rparr>,
         \<lparr>ds_source_id = 3, ds_source_code = ''MANUAL_ENTRY'', ds_source_type = ''MANUAL'',
          ds_description = Some ''Manual data entry'', ds_priority = 100, ds_is_active = 1\<rparr>,
         \<lparr>ds_source_id = 4, ds_source_code = ''DERIVED_CALC'', ds_source_type = ''DERIVED'',
          ds_description = Some ''Calculated/derived values'', ds_priority = 200,
          ds_is_active = 1\<rparr>]\<rparr>"

section \<open>Properties of the detector\<close>

lemmas pattern_defs = FIGI_pattern_def ISIN_pattern_def CUSIP_pattern_def SEDOL_pattern_def
  JP_CODE_pattern_def rep_def

lemma re_match_Nil: "re_match p [] = (p = [])"
  by (cases p) simp_all

lemma matches_type_Nil: "t \<in> set DETECTION_ORDER \<Longrightarrow> \<not> matches_type t []"
  by (auto simp: matches_type_def DETECTION_ORDER_def IDENTIFIER_PATTERNS_def re_match_Nil
      pattern_defs)

lemma detect_loop_find: "detect_loop ts v = find (\<lambda>t. matches_type t v) ts"
  by (induction ts) (auto simp: matches_type_def split: option.splits)

lemma find_None_all: "\<forall>t\<in>set ts. \<not> P t \<Longrightarrow> find P ts = None"
  by (induction ts) auto

lemma find_in_set: "find P ts = Some t \<Longrightarrow> t \<in> set ts"
  by (induction ts) (auto split: if_splits)



lemma detect_find:
  "detect_identifier_type v = find (\<lambda>t. matches_type t v) DETECTION_ORDER"
proof (cases "v = []")
  case True
  have "\<forall>t\<in>set DETECTION_ORDER. \<not> matches_type t []"
    using matches_type_Nil by blast
  then have "find (\<lambda>t. matches_type t []) DETECTION_ORDER = None"
    by (rule find_None_all)
  with True show ?thesis by (simp add: detect_identifier_type_def)
next
  case False
  then show ?thesis by (simp add: detect_identifier_type_def detect_loop_find)
qed

text \<open>The values the repository's tests check, and the effect of Python's \<^verbatim>\<open>$\<close>.\<close>

lemma detect_examples:
  "detect_identifier_type ''US0378331005'' = Some ''ISIN''"
  "detect_identifier_type ''037833100'' = Some ''CUSIP''"
  "detect_identifier_type ''B03MLX2'' = Some ''SEDOL''"
  "detect_identifier_type ''7203'' = Some ''JP_CODE''"
  "detect_identifier_type ''BBG000B9XRY4'' = Some ''FIGI''"
  "detect_identifier_type ''7203.T'' = None"
  "detect_identifier_type ''12345'' = None"
  "detect_identifier_type (''7203'' @ [CHR 0x0A]) = Some ''JP_CODE''"
  by (simp_all add: detect_identifier_type_def DETECTION_ORDER_def IDENTIFIER_PATTERNS_def
      pattern_defs eval_nat_numeral is_upper_def is_digit_def)




text \<open>
  C9.  The detector's result is none or one of FIGI, ISIN, CUSIP, SEDOL, JP_CODE; it is never
  one of the ticker types that \<^verbatim>\<open>resolve_auto\<close> tries in its fallback loop.
\<close>

theorem detect_never_ticker:
  "detect_identifier_type v \<in>
     {None, Some ''FIGI'', Some ''ISIN'', Some ''CUSIP'', Some ''SEDOL'', Some ''JP_CODE''}
   \<and> detect_identifier_type v \<noteq> Some ''TICKER_YAHOO''
   \<and> detect_identifier_type v \<noteq> Some ''TICKER_BBG''
   \<and> set_option (detect_identifier_type v) \<inter> set TICKER_TYPES = {}"
proof (cases "detect_identifier_type v")
  case None
  then show ?thesis by simp
next
  case (Some t)
  then have "t \<in> set DETECTION_ORDER"
    using find_in_set [of "\<lambda>t. matches_type t v" DETECTION_ORDER t] by (simp only: detect_find)
  then have "t = ''FIGI'' \<or> t = ''ISIN'' \<or> t = ''CUSIP'' \<or> t = ''SEDOL'' \<or> t = ''JP_CODE''"
    by (simp add: DETECTION_ORDER_def)
  with Some show ?thesis
    by (elim disjE) (simp_all add: TICKER_TYPES_def)
qed

section \<open>Properties of the storage layer\<close>

subsection \<open>Sorting\<close>

lemma set_insert_by: "set (insert_by lt x ys) = insert x (set ys)"
  by (induction ys) auto

lemma set_order_by: "set (order_by lt xs) = set xs"
  by (induction xs) (simp_all add: order_by_def set_insert_by)

lemma order_by_Cons: "order_by lt (x # xs) = insert_by lt x (order_by lt xs)"
  by (simp add: order_by_def)

lemma insert_by_not_Nil: "insert_by lt x ys \<noteq> []"
  by (cases ys) simp_all

lemma order_by_Nil_iff: "order_by lt xs = [] \<longleftrightarrow> xs = []"
  by (cases xs) (simp_all add: order_by_def insert_by_not_Nil)

text \<open>The first row of a sorted result: no row sorts strictly before it.\<close>

lemma order_by_head_first:
  assumes irrefl: "\<And>a. \<not> lt a a"
    and asym: "\<And>a b. lt a b \<Longrightarrow> \<not> lt b a"
    and negtrans: "\<And>a b c. \<not> lt a b \<Longrightarrow> \<not> lt b c \<Longrightarrow> \<not> lt a c"
  shows "order_by lt xs = m # rest \<Longrightarrow> \<forall>x\<in>set xs. \<not> lt x m"
proof (induction xs arbitrary: m rest)
  case Nil
  then show ?case by simp
next
  case (Cons x xs)
  show ?case
  proof (cases "order_by lt xs")
    case Nil
    then have "xs = []" by (simp add: order_by_Nil_iff)
    with Cons.prems have "m = x" by (simp add: order_by_def)
    with \<open>xs = []\<close> show ?thesis by (simp add: irrefl)
  next
    case (Cons y ys)
    then have ih: "\<forall>z\<in>set xs. \<not> lt z y" by (rule Cons.IH)
    show ?thesis
    proof (cases "lt y x")
      case True
      with Cons Cons.prems have "m = y" by (simp add: order_by_Cons)
      with ih True show ?thesis by (auto dest: asym)
    next
      case False
      with Cons Cons.prems have "m = x" by (simp add: order_by_Cons)
      with ih False show ?thesis by (auto simp: irrefl dest: negtrans)
    qed
  qed
qed

lemma order_by_head_mem: "order_by lt xs = m # rest \<Longrightarrow> m \<in> set xs"
  using set_order_by [of lt xs] by auto

lemma desc_nulls_last_irrefl: "\<not> desc_nulls_last a a"
  by (simp add: desc_nulls_last_def split: option.splits)

lemma desc_nulls_last_asym: "desc_nulls_last a b \<Longrightarrow> \<not> desc_nulls_last b a"
  by (auto simp: desc_nulls_last_def split: option.splits)

lemma desc_nulls_last_negtrans:
  "\<not> desc_nulls_last a b \<Longrightarrow> \<not> desc_nulls_last b c \<Longrightarrow> \<not> desc_nulls_last a c"
  by (auto simp: desc_nulls_last_def split: option.splits)

lemma not_desc_nulls_last_iff:
  "\<not> desc_nulls_last a b \<longleftrightarrow>
     (a = None \<or> (\<exists>x y. a = Some x \<and> b = Some y \<and> x \<le> y))"
  by (auto simp: desc_nulls_last_def split: option.splits)

subsection \<open>Schema initialisation and the connection\<close>

lemma fold_frame:
  assumes "\<And>r T. sel (g r T) = sel T"
  shows "sel (fold g rs T) = sel T"
  by (induction rs arbitrary: T) (simp_all add: assms)

lemma insert_or_ignore_identifier_type_frame:
  "securities (insert_or_ignore_identifier_type r T) = securities T"
  "seq_securities (insert_or_ignore_identifier_type r T) = seq_securities T"
  "security_identifiers (insert_or_ignore_identifier_type r T) = security_identifiers T"
  "seq_security_identifiers (insert_or_ignore_identifier_type r T) = seq_security_identifiers T"
  "data_sources (insert_or_ignore_identifier_type r T) = data_sources T"
  "price_data (insert_or_ignore_identifier_type r T) = price_data T"
  "factor_data (insert_or_ignore_identifier_type r T) = factor_data T"
  by (simp_all add: insert_or_ignore_identifier_type_def)

lemma insert_or_ignore_data_source_frame:
  "securities (insert_or_ignore_data_source r T) = securities T"
  "seq_securities (insert_or_ignore_data_source r T) = seq_securities T"
  "security_identifiers (insert_or_ignore_data_source r T) = security_identifiers T"
  "seq_security_identifiers (insert_or_ignore_data_source r T) = seq_security_identifiers T"
  "identifier_types (insert_or_ignore_data_source r T) = identifier_types T"
  "price_data (insert_or_ignore_data_source r T) = price_data T"
  "factor_data (insert_or_ignore_data_source r T) = factor_data T"
  by (simp_all add: insert_or_ignore_data_source_def Let_def split: prod.splits)

lemma initialize_schema_frame:
  "securities (initialize_schema T) = securities T"
  "seq_securities (initialize_schema T) = seq_securities T"
  "security_identifiers (initialize_schema T) = security_identifiers T"
  "seq_security_identifiers (initialize_schema T) = seq_security_identifiers T"
  "price_data (initialize_schema T) = price_data T"
  "factor_data (initialize_schema T) = factor_data T"
  by (simp_all add: initialize_schema_def fold_frame insert_or_ignore_identifier_type_frame
      insert_or_ignore_data_source_frame)

lemma connect_connected: "conn (connect db) \<noteq> None"
  by (simp add: connect_def run_initialize_def Let_def split: option.splits)

lemma connect_open: "conn db = Some T \<Longrightarrow> connect db = db"
  by (simp add: connect_def)

lemma connect_is_connected: "is_connected db \<Longrightarrow> connect db = db"
  by (auto simp: is_connected_def connect_def split: option.splits)

lemma connect_idem: "connect (connect db) = connect db"
  using connect_connected [of db] by (auto intro: connect_open)

lemma view_connect_frame:
  "securities (view (connect db)) = securities (view db)"
  "seq_securities (view (connect db)) = seq_securities (view db)"
  "security_identifiers (view (connect db)) = security_identifiers (view db)"
  "seq_security_identifiers (view (connect db)) = seq_security_identifiers (view db)"
  "price_data (view (connect db)) = price_data (view db)"
  "factor_data (view (connect db)) = factor_data (view db)"
  by (simp_all add: connect_def run_initialize_def view_def Let_def initialize_schema_frame
      split: option.splits)

lemma db_file_connect_frame:
  "securities (db_file (connect db)) = securities (db_file db)"
  "security_identifiers (db_file (connect db)) = security_identifiers (db_file db)"
  "price_data (db_file (connect db)) = price_data (db_file db)"
  "factor_data (db_file (connect db)) = factor_data (db_file db)"
  by (simp_all add: connect_def run_initialize_def view_def Let_def initialize_schema_frame
      split: option.splits)

text \<open>What the \<^verbatim>\<open>transaction\<close> context manager does with a block that raises.\<close>

lemma transaction_rollback:
  "block (connect db) = (Inl e, db1) \<Longrightarrow>
     transaction db block = (Inl (TransactionError e), rollback db1)"
  by (simp add: transaction_def)

lemma fetchone_snd: "snd (fetchone db q) = connect db"
  by (simp add: fetchone_def Let_def)

lemma fetchone_fst:
  "fst (fetchone db q) = (case q (view (connect db)) of [] \<Rightarrow> None | r # _ \<Rightarrow> Some r)"
  by (simp add: fetchone_def Let_def)

text \<open>\<^verbatim>\<open>fetchone\<close> agrees with \<^verbatim>\<open>execute\<close> on the statement that a query is.\<close>

lemma execute_query:
  "execute db (\<lambda>T. Inr (q T, T)) = (Inr (q (view (connect db))), connect db)"
proof -
  obtain T where "conn (connect db) = Some T"
    using connect_connected [of db] by auto
  then have "(connect db)\<lparr>conn := Some (view (connect db))\<rparr> = connect db"
    by (simp add: view_def)
  then show ?thesis by (simp add: execute_def Let_def)
qed

lemma fetchone_execute:
  "fetchone db q =
     (case execute db (\<lambda>T. Inr (q T, T)) of
        (Inr rows, db1) \<Rightarrow> (case rows of [] \<Rightarrow> None | r # _ \<Rightarrow> Some r, db1)
      | (Inl e, db1) \<Rightarrow> (None, db1))"
  by (simp add: execute_query fetchone_def Let_def)

lemma connect_open_db: "connect (open_db T) = open_db T"
  by (simp add: connect_def open_db_def)

lemma view_open_db: "view (open_db T) = T"
  by (simp add: view_def open_db_def)

section \<open>Properties of the resolver\<close>

subsection \<open>Point-in-time resolution\<close>

lemma take1_case: "(case map f (take (Suc 0) xs) of [] \<Rightarrow> None | r # _ \<Rightarrow> Some r)
   = (case xs of [] \<Rightarrow> None | x # _ \<Rightarrow> Some (f x))"
  by (cases xs) simp_all

lemma resolve_snd: "snd (resolve db v t as_of today) = connect db"
  by (simp add: resolve_def fetchone_snd)

lemma resolve_fst:
  "fst (resolve db v t as_of today) =
     (case order_by valid_from_desc
             (filter (resolve_where t v (case as_of of None \<Rightarrow> today | Some d \<Rightarrow> d))
                     (security_identifiers (view db))) of
        [] \<Rightarrow> None
      | r # _ \<Rightarrow> Some (si_security_id r))"
  by (simp add: resolve_def fetchone_fst select_resolve_def take1_case view_connect_frame)

lemma interval_contains_iff:
  "interval_contains r d \<longleftrightarrow>
     (\<forall>f. si_valid_from r = Some f \<longrightarrow> f \<le> d) \<and> (\<forall>u. si_valid_to r = Some u \<longrightarrow> d < u)"
  by (simp add: interval_contains_def split: option.splits)

lemma valid_from_desc_head:
  assumes "order_by valid_from_desc xs = m # rest"
  shows "m \<in> set xs \<and>
         (\<forall>x\<in>set xs. si_valid_from x = None \<or>
            (\<exists>a b. si_valid_from x = Some a \<and> si_valid_from m = Some b \<and> a \<le> b))"
proof -
  have "\<forall>x\<in>set xs. \<not> valid_from_desc x m"
    using assms
    by (rule order_by_head_first [rotated 3])
       (auto simp: valid_from_desc_def desc_nulls_last_irrefl
             dest: desc_nulls_last_asym desc_nulls_last_negtrans)
  then show ?thesis
    using order_by_head_mem [OF assms]
    by (simp add: valid_from_desc_def not_desc_nulls_last_iff)
qed

text \<open>The point-in-time scenario of the integration tests, evaluated.\<close>

lemma temporal_resolve:
  "fst (resolve (open_db temporal_tables) ''OLD.T'' ''TICKER_YAHOO'' (Some (2022, 6, 1)) (2024, 6, 1)) = Some 1"
  "fst (resolve (open_db temporal_tables) ''OLD.T'' ''TICKER_YAHOO'' (Some (2024, 6, 1)) (2024, 6, 1)) = None"
  "fst (resolve (open_db temporal_tables) ''NEW.T'' ''TICKER_YAHOO'' (Some (2022, 6, 1)) (2024, 6, 1)) = None"
  "fst (resolve (open_db temporal_tables) ''NEW.T'' ''TICKER_YAHOO'' (Some (2024, 6, 1)) (2024, 6, 1)) = Some 1"
  by (simp_all add: resolve_fst view_open_db temporal_tables_def initial_tables_def
      resolve_where_def interval_contains_def order_by_def)

text \<open>
  C2.  \<^verbatim>\<open>resolve\<close> returns none exactly when no association of the given type and value
  has a validity interval containing \<open>as_of\<close> (from \<open>valid_from\<close> inclusive to \<open>valid_to\<close>
  exclusive, a NULL bound being no bound).  When it returns an id, that id is the security
  of such an association, and every other such association has either no \<open>valid_from\<close> or
  a \<open>valid_from\<close> that is not later: the result has the latest non-null \<open>valid_from\<close>, rows
  without one coming last.  An omitted \<open>as_of\<close> is today's date.
\<close>

theorem resolve_point_in_time:
  "(fst (resolve db v t (Some d) today) = None \<longleftrightarrow>
      \<not> (\<exists>r\<in>set (security_identifiers (view db)).
            si_identifier_type r = t \<and> si_identifier_value r = v \<and> interval_contains r d))
   \<and> (\<forall>sid. fst (resolve db v t (Some d) today) = Some sid \<longrightarrow>
        (\<exists>r\<in>set (security_identifiers (view db)).
            si_security_id r = sid \<and> si_identifier_type r = t \<and> si_identifier_value r = v
            \<and> interval_contains r d
            \<and> (\<forall>r'\<in>set (security_identifiers (view db)).
                  si_identifier_type r' = t \<and> si_identifier_value r' = v
                  \<and> interval_contains r' d \<longrightarrow>
                  si_valid_from r' = None \<or>
                  (\<exists>x y. si_valid_from r' = Some x \<and> si_valid_from r = Some y \<and> x \<le> y))))
   \<and> fst (resolve db v t None today) = fst (resolve db v t (Some today) today)"
proof (intro conjI allI impI)
  let ?rows = "security_identifiers (view db)"
  let ?cands = "filter (resolve_where t v d) ?rows"
  let ?sorted = "order_by valid_from_desc ?cands"
  have fst_eq: "fst (resolve db v t (Some d) today) =
      (case ?sorted of [] \<Rightarrow> None | r # _ \<Rightarrow> Some (si_security_id r))"
    by (simp add: resolve_fst)
  show "fst (resolve db v t (Some d) today) = None \<longleftrightarrow>
      \<not> (\<exists>r\<in>set ?rows.
            si_identifier_type r = t \<and> si_identifier_value r = v \<and> interval_contains r d)"
  proof -
    have "fst (resolve db v t (Some d) today) = None \<longleftrightarrow> ?sorted = []"
      by (simp add: fst_eq split: list.splits)
    also have "\<dots> \<longleftrightarrow> ?cands = []" by (rule order_by_Nil_iff)
    also have "\<dots> \<longleftrightarrow> \<not> (\<exists>r\<in>set ?rows. resolve_where t v d r)"
      by (simp add: filter_empty_conv)
    finally show ?thesis by (simp add: resolve_where_def)
  qed
  show "fst (resolve db v t None today) = fst (resolve db v t (Some today) today)"
    by (simp add: resolve_fst)
  fix sid
  assume hit: "fst (resolve db v t (Some d) today) = Some sid"
  then obtain m rest where sorted: "?sorted = m # rest" and sid: "si_security_id m = sid"
    by (auto simp: fst_eq split: list.splits)
  from valid_from_desc_head [OF sorted]
  have mem: "m \<in> set ?cands"
    and first: "\<forall>x\<in>set ?cands. si_valid_from x = None \<or>
            (\<exists>a b. si_valid_from x = Some a \<and> si_valid_from m = Some b \<and> a \<le> b)"
    by blast+
  from mem have "m \<in> set ?rows" and "resolve_where t v d m" by simp_all
  with sid first
  show "\<exists>r\<in>set ?rows.
            si_security_id r = sid \<and> si_identifier_type r = t \<and> si_identifier_value r = v
            \<and> interval_contains r d
            \<and> (\<forall>r'\<in>set ?rows.
                  si_identifier_type r' = t \<and> si_identifier_value r' = v
                  \<and> interval_contains r' d \<longrightarrow>
                  si_valid_from r' = None \<or>
                  (\<exists>x y. si_valid_from r' = Some x \<and> si_valid_from r = Some y \<and> x \<le> y))"
    by (intro bexI [of _ m]) (simp_all add: resolve_where_def)
qed

theorem resolve_point_in_time_witness:
  "fst (resolve (open_db temporal_tables) ''OLD.T'' ''TICKER_YAHOO'' (Some (2022, 6, 1)) (2024, 6, 1)) = Some 1
   \<and> fst (resolve (open_db temporal_tables) ''OLD.T'' ''TICKER_YAHOO'' (Some (2024, 6, 1)) (2024, 6, 1)) = None
   \<and> fst (resolve (open_db temporal_tables) ''NEW.T'' ''TICKER_YAHOO'' (Some (2022, 6, 1)) (2024, 6, 1)) = None
   \<and> fst (resolve (open_db temporal_tables) ''NEW.T'' ''TICKER_YAHOO'' (Some (2024, 6, 1)) (2024, 6, 1)) = Some 1"
proof -
  have no: "\<not> (\<exists>r\<in>set (security_identifiers (view (open_db temporal_tables))).
            si_identifier_type r = ''TICKER_YAHOO'' \<and> si_identifier_value r = ''OLD.T''
            \<and> interval_contains r (2024, 6, 1))"
    by (simp add: view_open_db temporal_tables_def initial_tables_def interval_contains_def)
  have "fst (resolve (open_db temporal_tables) ''OLD.T'' ''TICKER_YAHOO'' (Some (2024, 6, 1)) (2024, 6, 1)) = None"
    using resolve_point_in_time [of "open_db temporal_tables" "''OLD.T''" "''TICKER_YAHOO''"
        "(2024, 6, 1)" "(2024, 6, 1)"] no
    by (elim conjE) (rule iffD2)
  with temporal_resolve show ?thesis by (intro conjI)
qed

subsection \<open>Resolution with detection and ticker fallback\<close>

declare ticker_loop.simps [simp del]

lemma resolve_connect: "resolve (connect db) v t a today = resolve db v t a today"
  by (simp add: resolve_def fetchone_def Let_def connect_idem)

lemma resolve_eq: "resolve db v t a today = (fst (resolve db v t a today), connect db)"
  using resolve_snd [of db v t a today] by (simp add: prod_eq_iff)

lemma ticker_loop_snd:
  "snd (ticker_loop ts db v a today) = (if ts = [] then db else connect db)"
proof (induction ts arbitrary: db)
  case Nil
  then show ?case by (simp add: ticker_loop.simps)
next
  case (Cons tt rest)
  show ?case
  proof (cases "fst (resolve db v tt a today)")
    case None
    then have "ticker_loop (tt # rest) db v a today = ticker_loop rest (connect db) v a today"
      by (subst ticker_loop.simps, subst resolve_eq) simp
    then show ?thesis by (simp add: Cons.IH connect_idem)
  next
    case (Some r)
    then have "ticker_loop (tt # rest) db v a today = (Some r, connect db)"
      by (subst ticker_loop.simps, subst resolve_eq) simp
    then show ?thesis by simp
  qed
qed

lemma ticker_loop_fst_Cons:
  "fst (ticker_loop (tt # rest) db v a today) =
     (case fst (resolve db v tt a today) of
        Some r \<Rightarrow> Some r
      | None \<Rightarrow> fst (ticker_loop rest (connect db) v a today))"
  by (subst ticker_loop.simps, subst resolve_eq) (simp split: option.splits)

lemma fallback_fst:
  "fst (ticker_loop TICKER_TYPES db v a today) =
     (case fst (resolve db v ''TICKER_YAHOO'' a today) of
        Some r \<Rightarrow> Some r
      | None \<Rightarrow> fst (resolve db v ''TICKER_BBG'' a today))"
proof -
  have "fst (ticker_loop [''TICKER_BBG''] (connect db) v a today) =
        fst (resolve db v ''TICKER_BBG'' a today)"
    by (subst ticker_loop_fst_Cons)
       (simp add: resolve_connect ticker_loop.simps split: option.splits)
  then show ?thesis
    unfolding TICKER_TYPES_def by (subst ticker_loop_fst_Cons) (simp split: option.splits)
qed

lemma fallback_connect:
  "fst (ticker_loop TICKER_TYPES (connect db) v a today) =
   fst (ticker_loop TICKER_TYPES db v a today)"
  by (simp only: fallback_fst resolve_connect)

lemma fallback_snd: "snd (ticker_loop TICKER_TYPES db v a today) = connect db"
  by (simp add: ticker_loop_snd TICKER_TYPES_def)

lemma resolve_auto_fst:
  "fst (resolve_auto db v a today) =
     (case detect_identifier_type v of
        None \<Rightarrow> fst (ticker_loop TICKER_TYPES db v a today)
      | Some t \<Rightarrow> (case fst (resolve db v t a today) of
                     Some r \<Rightarrow> Some r
                   | None \<Rightarrow> fst (ticker_loop TICKER_TYPES db v a today)))"
proof (cases "detect_identifier_type v")
  case None
  then show ?thesis by (simp add: resolve_auto_def)
next
  case (Some t)
  show ?thesis
    unfolding resolve_auto_def Some
    by (subst resolve_eq) (simp add: fallback_connect split: option.splits)
qed

lemma resolve_auto_snd: "snd (resolve_auto db v a today) = connect db"
proof (cases "detect_identifier_type v")
  case None
  then show ?thesis by (simp add: resolve_auto_def fallback_snd)
next
  case (Some t)
  show ?thesis
    unfolding resolve_auto_def Some
    by (subst resolve_eq)
       (simp add: fallback_snd connect_idem split: option.splits)
qed

text \<open>
  C7.  \<^verbatim>\<open>resolve_auto\<close> runs the detector; with a detected type it tries \<^verbatim>\<open>resolve\<close> with
  that type first; when nothing is detected or that attempt misses, it tries
  \<^verbatim>\<open>TICKER_YAHOO\<close> and then \<^verbatim>\<open>TICKER_BBG\<close>.  The first hit is the result, and the result is
  none when every attempt misses.
\<close>

theorem resolve_auto_fallback:
  "fst (resolve_auto db v as_of today) =
     (case detect_identifier_type v of
        None \<Rightarrow>
          (case fst (resolve db v ''TICKER_YAHOO'' as_of today) of
             Some r \<Rightarrow> Some r
           | None \<Rightarrow> fst (resolve db v ''TICKER_BBG'' as_of today))
      | Some t \<Rightarrow>
          (case fst (resolve db v t as_of today) of
             Some r \<Rightarrow> Some r
           | None \<Rightarrow>
               (case fst (resolve db v ''TICKER_YAHOO'' as_of today) of
                  Some r \<Rightarrow> Some r
                | None \<Rightarrow> fst (resolve db v ''TICKER_BBG'' as_of today))))
   \<and> TICKER_TYPES = [''TICKER_YAHOO'', ''TICKER_BBG'']
   \<and> ((\<forall>t\<in>set_option (detect_identifier_type v) \<union> set TICKER_TYPES.
          fst (resolve db v t as_of today) = None)
        \<longrightarrow> fst (resolve_auto db v as_of today) = None)"
proof (intro conjI impI)
  show eq: "fst (resolve_auto db v as_of today) =
     (case detect_identifier_type v of
        None \<Rightarrow>
          (case fst (resolve db v ''TICKER_YAHOO'' as_of today) of
             Some r \<Rightarrow> Some r
           | None \<Rightarrow> fst (resolve db v ''TICKER_BBG'' as_of today))
      | Some t \<Rightarrow>
          (case fst (resolve db v t as_of today) of
             Some r \<Rightarrow> Some r
           | None \<Rightarrow>
               (case fst (resolve db v ''TICKER_YAHOO'' as_of today) of
                  Some r \<Rightarrow> Some r
                | None \<Rightarrow> fst (resolve db v ''TICKER_BBG'' as_of today))))"
    by (simp add: resolve_auto_fst fallback_fst split: option.splits)
  show "TICKER_TYPES = [''TICKER_YAHOO'', ''TICKER_BBG'']"
    by (rule TICKER_TYPES_def)
  assume "\<forall>t\<in>set_option (detect_identifier_type v) \<union> set TICKER_TYPES.
          fst (resolve db v t as_of today) = None"
  then show "fst (resolve_auto db v as_of today) = None"
    by (cases "detect_identifier_type v") (simp_all add: eq TICKER_TYPES_def)
qed

lemma ticker_resolve:
  "fst (resolve (open_db ticker_tables) ''7203'' ''JP_CODE'' None (2024, 6, 15)) = Some 1"
  "fst (resolve (open_db ticker_tables) ''AAPL'' ''TICKER_YAHOO'' None (2024, 6, 15)) = Some 2"
  "fst (resolve (open_db ticker_tables) ''MSFT'' ''TICKER_YAHOO'' None (2024, 6, 15)) = None"
  "fst (resolve (open_db ticker_tables) ''MSFT'' ''TICKER_BBG'' None (2024, 6, 15)) = None"
  by (simp_all add: resolve_fst view_open_db ticker_tables_def initial_tables_def
      resolve_where_def interval_contains_def order_by_def)

lemma detect_tickers:
  "detect_identifier_type ''AAPL'' = None"
  "detect_identifier_type ''MSFT'' = None"
  by (simp_all add: detect_identifier_type_def DETECTION_ORDER_def IDENTIFIER_PATTERNS_def
      pattern_defs eval_nat_numeral is_upper_def is_digit_def)

theorem resolve_auto_fallback_witness:
  "fst (resolve_auto (open_db ticker_tables) ''7203'' None (2024, 6, 15)) = Some 1
   \<and> detect_identifier_type ''AAPL'' = None
   \<and> fst (resolve_auto (open_db ticker_tables) ''AAPL'' None (2024, 6, 15)) = Some 2
   \<and> fst (resolve (open_db ticker_tables) ''MSFT'' ''TICKER_YAHOO'' None (2024, 6, 15)) = None
   \<and> fst (resolve (open_db ticker_tables) ''MSFT'' ''TICKER_BBG'' None (2024, 6, 15)) = None
   \<and> fst (resolve_auto (open_db ticker_tables) ''MSFT'' None (2024, 6, 15)) = None"
proof -
  have a: "fst (resolve_auto (open_db ticker_tables) ''7203'' None (2024, 6, 15)) = Some 1"
    using resolve_auto_fallback [of "open_db ticker_tables" "''7203''" None "(2024, 6, 15)"]
    by (simp add: detect_examples ticker_resolve)
  have b: "fst (resolve_auto (open_db ticker_tables) ''AAPL'' None (2024, 6, 15)) = Some 2"
    using resolve_auto_fallback [of "open_db ticker_tables" "''AAPL''" None "(2024, 6, 15)"]
    by (simp add: detect_tickers ticker_resolve)
  have "\<forall>t\<in>set_option (detect_identifier_type ''MSFT'') \<union> set TICKER_TYPES.
          fst (resolve (open_db ticker_tables) ''MSFT'' t None (2024, 6, 15)) = None"
    by (simp add: detect_tickers TICKER_TYPES_def ticker_resolve)
  then have c: "fst (resolve_auto (open_db ticker_tables) ''MSFT'' None (2024, 6, 15)) = None"
    using resolve_auto_fallback [of "open_db ticker_tables" "''MSFT''" None "(2024, 6, 15)"]
    by (elim conjE) (rule mp)
  from a b c detect_tickers(1) ticker_resolve(3,4) show ?thesis by (intro conjI)
qed

subsection \<open>What the read operations leave unchanged\<close>

lemma resolve_or_raise_snd: "snd (resolve_or_raise db v t a today) = connect db"
  unfolding resolve_or_raise_def
  by (subst resolve_eq) (simp split: option.splits)

lemma resolve_or_raise_fst:
  "fst (resolve_or_raise db v t a today) =
     (case fst (resolve db v t a today) of
        None \<Rightarrow> Inl (IdentifierNotFoundError t v)
      | Some r \<Rightarrow> Inr r)"
  unfolding resolve_or_raise_def
  by (subst resolve_eq) (simp split: option.splits)

lemma initialize_schema_empty: "initialize_schema empty_tables = initial_tables"
  by (simp add: initialize_schema_def empty_tables_def initial_tables_def
      DEFAULT_IDENTIFIER_TYPES_def DEFAULT_DATA_SOURCES_def
      insert_or_ignore_identifier_type_def insert_or_ignore_data_source_def
      next_rowid_def Let_def)

lemma connect_fresh_db: "connect fresh_db = open_db initial_tables"
  by (simp add: connect_def fresh_db_def run_initialize_def Let_def view_def open_db_def
      initialize_schema_empty)

lemma connect_no_initialize:
  "initialized db \<or> \<not> auto_initialize db \<Longrightarrow>
     view (connect db) = view db \<and> db_file (connect db) = db_file db"
  by (auto simp: connect_def view_def Let_def split: option.splits)

lemma reopened_sources:
  "map ds_source_code (data_sources (db_file reopened_db))
     = [''YFINANCE'', ''EXCEL_IMPORT'', ''MANUAL_ENTRY'']"
  "map ds_source_code (data_sources (db_file (connect reopened_db)))
     = [''YFINANCE'', ''EXCEL_IMPORT'', ''MANUAL_ENTRY'', ''DERIVED_CALC'']"
  by (simp_all add: reopened_db_def initial_tables_def connect_def run_initialize_def Let_def
      view_def initialize_schema_def DEFAULT_IDENTIFIER_TYPES_def DEFAULT_DATA_SOURCES_def
      insert_or_ignore_identifier_type_def insert_or_ignore_data_source_def next_rowid_def)

text \<open>
  The first statement on a connection that is not open yet opens it, and opening runs
  \<^verbatim>\<open>initialize_schema\<close>: a \<^verbatim>\<open>resolve\<close> on a database nobody has connected to leaves the
  four default rows in \<^verbatim>\<open>data_sources\<close>, committed, and a \<^verbatim>\<open>resolve\<close> through a new
  connection to a database that lacks a default source puts that source back.
\<close>

theorem resolve_writes_defaults_counterexample:
  "\<not> is_connected fresh_db
   \<and> fst (resolve fresh_db ''7203'' ''JP_CODE'' None (2024, 6, 15)) = None
   \<and> data_sources (db_file fresh_db) = []
   \<and> map ds_source_code
         (data_sources (db_file (snd (resolve fresh_db ''7203'' ''JP_CODE'' None (2024, 6, 15)))))
       = [''YFINANCE'', ''EXCEL_IMPORT'', ''MANUAL_ENTRY'', ''DERIVED_CALC'']
   \<and> \<not> is_connected reopened_db
   \<and> map ds_source_code (data_sources (db_file reopened_db))
       = [''YFINANCE'', ''EXCEL_IMPORT'', ''MANUAL_ENTRY'']
   \<and> map ds_source_code
         (data_sources (db_file (snd (resolve reopened_db ''7203'' ''JP_CODE'' None (2024, 6, 15)))))
       = [''YFINANCE'', ''EXCEL_IMPORT'', ''MANUAL_ENTRY'', ''DERIVED_CALC'']"
proof (intro conjI)
  show "\<not> is_connected fresh_db"
    by (simp add: is_connected_def fresh_db_def)
  show "fst (resolve fresh_db ''7203'' ''JP_CODE'' None (2024, 6, 15)) = None"
    by (simp add: resolve_fst fresh_db_def view_def empty_tables_def order_by_def)
  show "data_sources (db_file fresh_db) = []"
    by (simp add: fresh_db_def empty_tables_def)
  show "map ds_source_code
         (data_sources (db_file (snd (resolve fresh_db ''7203'' ''JP_CODE'' None (2024, 6, 15)))))
       = [''YFINANCE'', ''EXCEL_IMPORT'', ''MANUAL_ENTRY'', ''DERIVED_CALC'']"
    by (simp add: resolve_snd connect_fresh_db open_db_def initial_tables_def)
  show "\<not> is_connected reopened_db"
    by (simp add: is_connected_def reopened_db_def)
  show "map ds_source_code (data_sources (db_file reopened_db))
       = [''YFINANCE'', ''EXCEL_IMPORT'', ''MANUAL_ENTRY'']"
    by (rule reopened_sources)
  show "map ds_source_code
         (data_sources (db_file (snd (resolve reopened_db ''7203'' ''JP_CODE'' None (2024, 6, 15)))))
       = [''YFINANCE'', ''EXCEL_IMPORT'', ''MANUAL_ENTRY'', ''DERIVED_CALC'']"
    by (simp only: resolve_snd reopened_sources)
qed

text \<open>
  C10, amended.  On an open connection \<^verbatim>\<open>resolve\<close>, \<^verbatim>\<open>resolve_auto\<close> and
  \<^verbatim>\<open>resolve_or_raise\<close> return the connection state they were given, whether they return
  an id, none or \<^verbatim>\<open>IdentifierNotFoundError\<close>.  In every case the state they return is
  that of \<^verbatim>\<open>connect\<close>, and the tables \<^verbatim>\<open>securities\<close>, \<^verbatim>\<open>security_identifiers\<close>,
  \<^verbatim>\<open>price_data\<close> and \<^verbatim>\<open>factor_data\<close> are the same before and after, both as the connection
  sees them and as committed; every table is, unless opening the connection initialises
  the schema.  The detector takes no connection at all.
\<close>

theorem read_only_when_connected:
  "(is_connected db \<longrightarrow>
      snd (resolve db v t as_of today) = db
      \<and> snd (resolve_auto db v as_of today) = db
      \<and> snd (resolve_or_raise db v t as_of today) = db)
   \<and> (\<forall>db'\<in>{snd (resolve db v t as_of today), snd (resolve_auto db v as_of today),
              snd (resolve_or_raise db v t as_of today)}.
         db' = connect db
         \<and> securities (view db') = securities (view db)
         \<and> security_identifiers (view db') = security_identifiers (view db)
         \<and> price_data (view db') = price_data (view db)
         \<and> factor_data (view db') = factor_data (view db)
         \<and> securities (db_file db') = securities (db_file db)
         \<and> security_identifiers (db_file db') = security_identifiers (db_file db)
         \<and> price_data (db_file db') = price_data (db_file db)
         \<and> factor_data (db_file db') = factor_data (db_file db)
         \<and> (initialized db \<or> \<not> auto_initialize db \<longrightarrow>
               view db' = view db \<and> db_file db' = db_file db))"
  using connect_no_initialize [of db]
  by (simp add: resolve_snd resolve_auto_snd resolve_or_raise_snd connect_is_connected
      view_connect_frame db_file_connect_frame)

theorem read_only_when_connected_witness:
  "is_connected (open_db ticker_tables)
   \<and> snd (resolve (open_db ticker_tables) ''7203'' ''JP_CODE'' None (2024, 6, 15)) = open_db ticker_tables
   \<and> snd (resolve_auto (open_db ticker_tables) ''AAPL'' None (2024, 6, 15)) = open_db ticker_tables
   \<and> snd (resolve_or_raise (open_db ticker_tables) ''MSFT'' ''TICKER_BBG'' None (2024, 6, 15)) = open_db ticker_tables
   \<and> securities (view (snd (resolve fresh_db ''7203'' ''JP_CODE'' None (2024, 6, 15)))) = securities (view fresh_db)"
proof -
  have c: "is_connected (open_db ticker_tables)"
    by (simp add: is_connected_def open_db_def)
  from c read_only_when_connected [of "open_db ticker_tables" "''7203''" "''JP_CODE''" None "(2024, 6, 15)"]
  have 1: "snd (resolve (open_db ticker_tables) ''7203'' ''JP_CODE'' None (2024, 6, 15)) = open_db ticker_tables"
    by blast
  from c read_only_when_connected [of "open_db ticker_tables" "''AAPL''" _ None "(2024, 6, 15)"]
  have 2: "snd (resolve_auto (open_db ticker_tables) ''AAPL'' None (2024, 6, 15)) = open_db ticker_tables"
    by blast
  from c read_only_when_connected [of "open_db ticker_tables" "''MSFT''" "''TICKER_BBG''" None "(2024, 6, 15)"]
  have 3: "snd (resolve_or_raise (open_db ticker_tables) ''MSFT'' ''TICKER_BBG'' None (2024, 6, 15)) = open_db ticker_tables"
    by blast
  from read_only_when_connected [of fresh_db "''7203''" "''JP_CODE''" None "(2024, 6, 15)"]
  have 4: "securities (view (snd (resolve fresh_db ''7203'' ''JP_CODE'' None (2024, 6, 15)))) = securities (view fresh_db)"
    by blast
  from c 1 2 3 4 show ?thesis by (intro conjI)
qed

subsection \<open>\<^verbatim>\<open>resolve_or_create\<close> without a name\<close>

lemma resolve_or_create_empty_name_eq:
  assumes "fst (resolve db v t None today) = None"
  shows "resolve_or_create db v t [] description asset_class currency today =
     (Inl (ValueError (''security_name is required when creating new security for '' @ t @ ''='' @ v)),
      connect db)"
  unfolding resolve_or_create_def
  by (subst resolve_eq) (simp add: assms)

text \<open>
  The failure for an empty name is Python's built-in \<^verbatim>\<open>ValueError\<close>, as the method's
  docstring and its unit test say; it is not the package's \<^verbatim>\<open>ValidationError\<close>.
\<close>

theorem resolve_or_create_not_validation_error_counterexample:
  "fst (resolve (open_db initial_tables) ''7203'' ''JP_CODE'' None (2024, 6, 15)) = None
   \<and> \<not> (\<exists>field reason.
          fst (resolve_or_create (open_db initial_tables) ''7203'' ''JP_CODE'' '''' None None None (2024, 6, 15))
            = Inl (ValidationError field reason))
   \<and> fst (resolve_or_create (open_db initial_tables) ''7203'' ''JP_CODE'' '''' None None None (2024, 6, 15))
        = Inl (ValueError ''security_name is required when creating new security for JP_CODE=7203'')"
proof -
  have n: "fst (resolve (open_db initial_tables) ''7203'' ''JP_CODE'' None (2024, 6, 15)) = None"
    by (simp add: resolve_fst view_open_db initial_tables_def order_by_def)
  then show ?thesis
    by (simp add: resolve_or_create_empty_name_eq)
qed

text \<open>
  C6, amended.  When \<^verbatim>\<open>resolve\<close> finds no association and the name is empty,
  \<^verbatim>\<open>resolve_or_create\<close> fails with \<^verbatim>\<open>ValueError\<close> before any write: the state it leaves
  is that of \<^verbatim>\<open>connect\<close>, with the same \<^verbatim>\<open>securities\<close> and \<^verbatim>\<open>security_identifiers\<close>
  rows as before, and on an open connection it is the state it was given.
\<close>

theorem resolve_or_create_empty_name:
  assumes "fst (resolve db v t None today) = None"
  shows "fst (resolve_or_create db v t [] description asset_class currency today) =
           Inl (ValueError (''security_name is required when creating new security for '' @ t @ ''='' @ v))
    \<and> snd (resolve_or_create db v t [] description asset_class currency today) = connect db
    \<and> securities (view (snd (resolve_or_create db v t [] description asset_class currency today)))
         = securities (view db)
    \<and> security_identifiers (view (snd (resolve_or_create db v t [] description asset_class currency today)))
         = security_identifiers (view db)
    \<and> securities (db_file (snd (resolve_or_create db v t [] description asset_class currency today)))
         = securities (db_file db)
    \<and> security_identifiers (db_file (snd (resolve_or_create db v t [] description asset_class currency today)))
         = security_identifiers (db_file db)
    \<and> (is_connected db \<longrightarrow>
          snd (resolve_or_create db v t [] description asset_class currency today) = db)"
  by (simp add: resolve_or_create_empty_name_eq [OF assms] view_connect_frame
      db_file_connect_frame connect_is_connected)

theorem resolve_or_create_empty_name_witness:
  "fst (resolve (open_db ticker_tables) ''6758'' ''JP_CODE'' None (2024, 6, 15)) = None
   \<and> resolve_or_create (open_db ticker_tables) ''6758'' ''JP_CODE'' '''' None None None (2024, 6, 15)
       = (Inl (ValueError ''security_name is required when creating new security for JP_CODE=6758''),
          open_db ticker_tables)"
proof -
  have n: "fst (resolve (open_db ticker_tables) ''6758'' ''JP_CODE'' None (2024, 6, 15)) = None"
    by (simp add: resolve_fst view_open_db ticker_tables_def initial_tables_def
        resolve_where_def order_by_def)
  have c: "is_connected (open_db ticker_tables)"
    by (simp add: is_connected_def open_db_def)
  from resolve_or_create_empty_name [OF n, of None None None] c
  have "resolve_or_create (open_db ticker_tables) ''6758'' ''JP_CODE'' '''' None None None (2024, 6, 15)
       = (Inl (ValueError (''security_name is required when creating new security for '' @ ''JP_CODE'' @ ''='' @ ''6758'')),
          open_db ticker_tables)"
    by (simp add: prod_eq_iff connect_open_db)
  with n show ?thesis by simp
qed


section \<open>Properties of the repository\<close>

lemma duplicate_where_iff:
  "duplicate_where t v vf r \<longleftrightarrow>
     si_identifier_type r = t \<and> si_identifier_value r = v \<and>
     (si_valid_from r = None \<or> si_valid_from r = vf)"
  by (auto simp: duplicate_where_def split: option.splits)

lemma duplicate_where_eq:
  "duplicate_where t v vf =
     (\<lambda>r. si_identifier_type r = t \<and> si_identifier_value r = v \<and>
          (si_valid_from r = None \<or> si_valid_from r = vf))"
  by (rule ext) (rule duplicate_where_iff)

lemma execute_open:
  "execute db stmt =
     (case stmt (view (connect db)) of
        Inl e \<Rightarrow> (Inl e, connect db)
      | Inr (r, T) \<Rightarrow> (Inr r, (connect db)\<lparr>conn := Some T\<rparr>))"
  by (simp add: execute_def Let_def)

lemma fetchone_eq:
  "fetchone db q = (case q (view (connect db)) of [] \<Rightarrow> None | r # _ \<Rightarrow> Some r, connect db)"
  by (simp add: fetchone_def Let_def)

lemma add_identifier_eq:
  "add_identifier db sid t v p vf vt =
     (if (case first_duplicate (view db) t v vf of None \<Rightarrow> False | Some x \<Rightarrow> x \<noteq> sid) then
        (Inl (DuplicateSecurityError t v), connect db)
      else
        (case insert_security_identifier sid t v (if p then 1 else 0) vf vt (view (connect db)) of
           Inl e \<Rightarrow> (Inl e, connect db)
         | Inr (rowid, T) \<Rightarrow> (Inr (), (connect db)\<lparr>conn := Some T, db_file := T\<rparr>)))"
proof -
  have q: "(case select_duplicate t v vf (view (connect db)) of [] \<Rightarrow> None | r # _ \<Rightarrow> Some r)
           = first_duplicate (view db) t v vf"
    by (simp add: select_duplicate_def first_duplicate_def view_connect_frame)
  show ?thesis
    unfolding add_identifier_def fetchone_eq q
    by (simp add: execute_open connect_idem commit_def split: sum.splits prod.splits)
qed

lemma first_duplicate_filter:
  "first_duplicate T t v vf =
     (case filter (\<lambda>r. si_identifier_type r = t \<and> si_identifier_value r = v \<and>
                        si_valid_from r = None)
                  (security_identifiers T) @
           filter (\<lambda>r. si_identifier_type r = t \<and> si_identifier_value r = v \<and>
                        si_valid_from r \<noteq> None \<and> si_valid_from r = vf)
                  (security_identifiers T) of
        [] \<Rightarrow> None
      | r # _ \<Rightarrow> Some (si_security_id r))"
proof -
  have u: "(\<lambda>r. duplicate_where t v vf r \<and> si_valid_from r = None) =
           (\<lambda>r. si_identifier_type r = t \<and> si_identifier_value r = v \<and> si_valid_from r = None)"
    by (auto simp: duplicate_where_iff fun_eq_iff)
  have d: "(\<lambda>r. duplicate_where t v vf r \<and> si_valid_from r \<noteq> None) =
           (\<lambda>r. si_identifier_type r = t \<and> si_identifier_value r = v \<and>
                si_valid_from r \<noteq> None \<and> si_valid_from r = vf)"
    by (auto simp: duplicate_where_iff fun_eq_iff)
  have m: "(case map si_security_id xs of [] \<Rightarrow> None | y # _ \<Rightarrow> Some y) =
           (case xs of [] \<Rightarrow> None | r # _ \<Rightarrow> Some (si_security_id r))"
    for xs :: "security_identifier_row list"
    by (cases xs) simp_all
  show ?thesis
    unfolding first_duplicate_def select_duplicate_def u d
    by (rule m)
qed

lemma select_duplicate_set:
  "set (select_duplicate t v vf T) =
     si_security_id ` {r \<in> set (security_identifiers T). duplicate_where t v vf r}"
proof -
  have "set (filter (\<lambda>r. duplicate_where t v vf r \<and> si_valid_from r = None)
               (security_identifiers T) @
             filter (\<lambda>r. duplicate_where t v vf r \<and> si_valid_from r \<noteq> None)
               (security_identifiers T))
        = {r \<in> set (security_identifiers T). duplicate_where t v vf r}"
    by (simp only: set_append set_filter) blast
  then show ?thesis
    unfolding select_duplicate_def by (simp only: set_map)
qed

lemma first_duplicate_None_iff:
  "first_duplicate T t v vf = None \<longleftrightarrow>
     \<not> (\<exists>r\<in>set (security_identifiers T). duplicate_where t v vf r)"
proof -
  have "first_duplicate T t v vf = None \<longleftrightarrow> set (select_duplicate t v vf T) = {}"
    by (simp add: first_duplicate_def split: list.splits)
  then show ?thesis
    unfolding select_duplicate_set by auto
qed

lemma first_duplicate_Some:
  assumes "first_duplicate T t v vf = Some x"
  shows "\<exists>r\<in>set (security_identifiers T). duplicate_where t v vf r \<and> si_security_id r = x"
proof -
  from assms have "x \<in> set (select_duplicate t v vf T)"
    by (auto simp: first_duplicate_def split: list.splits)
  then show ?thesis
    unfolding select_duplicate_set by auto
qed

lemma create_eq:
  "create db name description asset_class currency =
     (let T = view (connect db);
          security_id = next_rowid (seq_securities T) (map s_security_id (securities T));
          T' = T\<lparr>securities := securities T @
                   [\<lparr>s_security_id = security_id, s_name = name, s_description = description,
                     s_asset_class = asset_class, s_currency = currency\<rparr>],
                seq_securities := security_id\<rparr>
      in (Inr security_id, (connect db)\<lparr>conn := Some T', db_file := T'\<rparr>))"
  by (simp add: create_def execute_open insert_security_def Let_def commit_def)

lemma resolve_or_create_eq:
  "resolve_or_create db v t name description asset_class currency today =
     (case fst (resolve db v t None today) of
        Some existing_id \<Rightarrow> (Inr existing_id, connect db)
      | None \<Rightarrow>
          if name = [] then
            (Inl (ValueError (''security_name is required when creating new security for '' @
                              t @ ''='' @ v)), connect db)
          else
            (case create (connect db) name description asset_class currency of
               (Inl e, db2) \<Rightarrow> (Inl e, db2)
             | (Inr security_id, db2) \<Rightarrow>
                 (case add_identifier db2 security_id t v False None None of
                    (Inl e, db3) \<Rightarrow> (Inl e, db3)
                  | (Inr u, db3) \<Rightarrow> (Inr security_id, db3))))"
  unfolding resolve_or_create_def
  by (subst resolve_eq) (simp split: option.splits)

lemma insert_security_identifier_error:
  "insert_security_identifier sid t v i vf vt T = Inl e \<Longrightarrow> \<exists>m. e = DatabaseError m"
  by (auto simp: insert_security_identifier_def Let_def split: if_splits)

lemma add_identifier_duplicate_iff:
  "fst (add_identifier db sid t v p vf vt) = Inl (DuplicateSecurityError t v) \<longleftrightarrow>
     (case first_duplicate (view db) t v vf of None \<Rightarrow> False | Some x \<Rightarrow> x \<noteq> sid)"
proof (cases "case first_duplicate (view db) t v vf of None \<Rightarrow> False | Some x \<Rightarrow> x \<noteq> sid")
  case True
  then show ?thesis by (simp add: add_identifier_eq)
next
  case False
  let ?ins = "insert_security_identifier sid t v (if p then 1 else 0) vf vt (view (connect db))"
  show ?thesis
  proof (cases ?ins)
    case (Inl e)
    from insert_security_identifier_error [OF Inl] obtain m where "e = DatabaseError m" ..
    with False Inl show ?thesis by (simp add: add_identifier_eq)
  next
    case (Inr rT)
    with False show ?thesis by (simp add: add_identifier_eq split: prod.splits)
  qed
qed

lemma duplicate_check_other:
  assumes "case first_duplicate T t v vf of None \<Rightarrow> False | Some x \<Rightarrow> x \<noteq> sid"
  shows "\<exists>r\<in>set (security_identifiers T).
           si_identifier_type r = t \<and> si_identifier_value r = v \<and>
           (si_valid_from r = None \<or> si_valid_from r = vf) \<and> si_security_id r \<noteq> sid"
proof -
  from assms obtain x where x: "first_duplicate T t v vf = Some x" and ne: "x \<noteq> sid"
    by (auto split: option.splits)
  from first_duplicate_Some [OF x] ne show ?thesis
    by (auto simp: duplicate_where_iff)
qed

lemma duplicate_check_only_others:
  assumes ex: "\<exists>r\<in>set (security_identifiers T).
           si_identifier_type r = t \<and> si_identifier_value r = v \<and>
           (si_valid_from r = None \<or> si_valid_from r = vf)"
    and others: "\<forall>r\<in>set (security_identifiers T).
           si_identifier_type r = t \<and> si_identifier_value r = v \<and>
           (si_valid_from r = None \<or> si_valid_from r = vf) \<longrightarrow> si_security_id r \<noteq> sid"
  shows "case first_duplicate T t v vf of None \<Rightarrow> False | Some x \<Rightarrow> x \<noteq> sid"
proof (cases "first_duplicate T t v vf")
  case None
  with ex show ?thesis
    by (auto simp: first_duplicate_None_iff duplicate_where_iff)
next
  case (Some x)
  from first_duplicate_Some [OF Some] others have "x \<noteq> sid"
    by (auto simp: duplicate_where_iff)
  with Some show ?thesis by simp
qed

lemma duplicate_check_no_other:
  assumes own: "\<forall>r\<in>set (security_identifiers T).
           si_identifier_type r = t \<and> si_identifier_value r = v \<and>
           (si_valid_from r = None \<or> si_valid_from r = vf) \<longrightarrow> si_security_id r = sid"
  shows "\<not> (case first_duplicate T t v vf of None \<Rightarrow> False | Some x \<Rightarrow> x \<noteq> sid)"
proof (cases "first_duplicate T t v vf")
  case None
  then show ?thesis by simp
next
  case (Some x)
  from first_duplicate_Some [OF Some] own have "x = sid"
    by (auto simp: duplicate_where_iff)
  with Some show ?thesis by simp
qed

lemma add_identifier_cases:
  "(\<forall>e. fst (add_identifier db sid t v p vf vt) = Inl e \<longrightarrow>
          (e = DuplicateSecurityError t v \<or> (\<exists>m. e = DatabaseError m))
          \<and> snd (add_identifier db sid t v p vf vt) = connect db)
   \<and> (fst (add_identifier db sid t v p vf vt) = Inr () \<longrightarrow>
          security_identifiers (view (snd (add_identifier db sid t v p vf vt))) =
            security_identifiers (view db) @
              [\<lparr>si_id = next_rowid (seq_security_identifiers (view db))
                                   (map si_id (security_identifiers (view db))),
                si_security_id = sid, si_identifier_type = t, si_identifier_value = v,
                si_valid_from = vf, si_valid_to = vt,
                si_is_primary = (if p then 1 else 0)\<rparr>]
          \<and> db_file (snd (add_identifier db sid t v p vf vt)) =
              view (snd (add_identifier db sid t v p vf vt))
          \<and> securities (view (snd (add_identifier db sid t v p vf vt))) =
              securities (view db))"
proof -
  let ?ins = "insert_security_identifier sid t v (if p then 1 else 0) vf vt (view (connect db))"
  have ins_ok: "\<And>rowid T. ?ins = Inr (rowid, T) \<Longrightarrow>
      security_identifiers T = security_identifiers (view db) @
              [\<lparr>si_id = next_rowid (seq_security_identifiers (view db))
                                   (map si_id (security_identifiers (view db))),
                si_security_id = sid, si_identifier_type = t, si_identifier_value = v,
                si_valid_from = vf, si_valid_to = vt,
                si_is_primary = (if p then 1 else 0)\<rparr>]
      \<and> securities T = securities (view db)"
    by (auto simp: insert_security_identifier_def Let_def view_connect_frame split: if_splits)
  show ?thesis
  proof (cases "case first_duplicate (view db) t v vf of None \<Rightarrow> False | Some x \<Rightarrow> x \<noteq> sid")
    case True
    then have eq: "add_identifier db sid t v p vf vt = (Inl (DuplicateSecurityError t v), connect db)"
      by (simp add: add_identifier_eq)
    show ?thesis
      unfolding eq by simp
  next
    case False
    note nodup = False
    show ?thesis
    proof (cases ?ins)
      case (Inl e)
      with nodup have eq: "add_identifier db sid t v p vf vt = (Inl e, connect db)"
        by (simp add: add_identifier_eq)
      from insert_security_identifier_error [OF Inl] obtain m where "e = DatabaseError m" ..
      then show ?thesis
        unfolding eq by simp
    next
      case (Inr rT)
      obtain rowid T where rT: "rT = (rowid, T)" by (cases rT)
      with Inr nodup have eq: "add_identifier db sid t v p vf vt =
          (Inr (), (connect db)\<lparr>conn := Some T, db_file := T\<rparr>)"
        by (simp add: add_identifier_eq)
      from ins_ok [OF Inr [unfolded rT]] show ?thesis
        unfolding eq by (simp add: view_def)
    qed
  qed
qed

text \<open>
  The duplicate check also matches a row that has no \<^verbatim>\<open>valid_from\<close>, whatever start date
  is being registered: the second security is refused although no row has the triple
  (type, value, \<^verbatim>\<open>valid_from\<close>) it asks for.
\<close>

theorem add_identifier_null_valid_from_counterexample:
  "fst (add_identifier (open_db isin_tables) 2 ''ISIN'' ''US0378331005'' False
          (Some (2024, 3, 15)) None)
     = Inl (DuplicateSecurityError ''ISIN'' ''US0378331005'')
   \<and> \<not> (\<exists>r\<in>set (security_identifiers (view (open_db isin_tables))).
          si_identifier_type r = ''ISIN'' \<and> si_identifier_value r = ''US0378331005''
          \<and> si_valid_from r = Some (2024, 3, 15))"
  by (simp add: add_identifier_eq first_duplicate_filter view_open_db isin_tables_def
      initial_tables_def)

text \<open>
  C5, amended.  Call a stored row \<^emph>\<open>matching\<close> when it has the same type and value and its
  \<^verbatim>\<open>valid_from\<close> is NULL or equal to the requested one.  \<^verbatim>\<open>add_identifier\<close> fails with
  \<^verbatim>\<open>DuplicateSecurityError\<close> carrying (type, value) only if a matching row belongs to a
  different security, and it does fail so, writing nothing, when matching rows exist and
  none of them belongs to the same security.  When no matching row belongs to a different
  security it proceeds with the insert.  Its only other failure is the storage layer's
  \<^verbatim>\<open>DatabaseError\<close>, and a failure inserts nothing.  On success exactly one row, with the
  given values, is appended to \<^verbatim>\<open>security_identifiers\<close> and committed, and \<^verbatim>\<open>securities\<close>
  is as before.  The statement does not depend on which matching row the check fetches;
  it leaves open the states in which matching rows belong both to the same and to a
  different security.
\<close>

theorem add_identifier_duplicate_check:
  "(fst (add_identifier db sid t v p vf vt) = Inl (DuplicateSecurityError t v) \<longrightarrow>
      (\<exists>r\<in>set (security_identifiers (view db)).
          si_identifier_type r = t \<and> si_identifier_value r = v \<and>
          (si_valid_from r = None \<or> si_valid_from r = vf) \<and> si_security_id r \<noteq> sid))
   \<and> ((\<exists>r\<in>set (security_identifiers (view db)).
          si_identifier_type r = t \<and> si_identifier_value r = v \<and>
          (si_valid_from r = None \<or> si_valid_from r = vf)) \<and>
       (\<forall>r\<in>set (security_identifiers (view db)).
          si_identifier_type r = t \<and> si_identifier_value r = v \<and>
          (si_valid_from r = None \<or> si_valid_from r = vf) \<longrightarrow> si_security_id r \<noteq> sid) \<longrightarrow>
       add_identifier db sid t v p vf vt = (Inl (DuplicateSecurityError t v), connect db))
   \<and> ((\<forall>r\<in>set (security_identifiers (view db)).
          si_identifier_type r = t \<and> si_identifier_value r = v \<and>
          (si_valid_from r = None \<or> si_valid_from r = vf) \<longrightarrow> si_security_id r = sid) \<longrightarrow>
       add_identifier db sid t v p vf vt =
         (case insert_security_identifier sid t v (if p then 1 else 0) vf vt
                 (view (connect db)) of
            Inl e \<Rightarrow> (Inl e, connect db)
          | Inr (rowid, T) \<Rightarrow> (Inr (), (connect db)\<lparr>conn := Some T, db_file := T\<rparr>)))
   \<and> (\<forall>e. fst (add_identifier db sid t v p vf vt) = Inl e \<longrightarrow>
          (e = DuplicateSecurityError t v \<or> (\<exists>m. e = DatabaseError m))
          \<and> snd (add_identifier db sid t v p vf vt) = connect db)
   \<and> (fst (add_identifier db sid t v p vf vt) = Inr () \<longrightarrow>
          security_identifiers (view (snd (add_identifier db sid t v p vf vt))) =
            security_identifiers (view db) @
              [\<lparr>si_id = next_rowid (seq_security_identifiers (view db))
                                   (map si_id (security_identifiers (view db))),
                si_security_id = sid, si_identifier_type = t, si_identifier_value = v,
                si_valid_from = vf, si_valid_to = vt,
                si_is_primary = (if p then 1 else 0)\<rparr>]
          \<and> db_file (snd (add_identifier db sid t v p vf vt)) =
              view (snd (add_identifier db sid t v p vf vt))
          \<and> securities (view (snd (add_identifier db sid t v p vf vt))) =
              securities (view db))"
proof (intro conjI impI)
  assume "fst (add_identifier db sid t v p vf vt) = Inl (DuplicateSecurityError t v)"
  then have "case first_duplicate (view db) t v vf of None \<Rightarrow> False | Some x \<Rightarrow> x \<noteq> sid"
    by (simp only: add_identifier_duplicate_iff)
  then show "\<exists>r\<in>set (security_identifiers (view db)).
          si_identifier_type r = t \<and> si_identifier_value r = v \<and>
          (si_valid_from r = None \<or> si_valid_from r = vf) \<and> si_security_id r \<noteq> sid"
    by (rule duplicate_check_other)
next
  assume "(\<exists>r\<in>set (security_identifiers (view db)).
          si_identifier_type r = t \<and> si_identifier_value r = v \<and>
          (si_valid_from r = None \<or> si_valid_from r = vf)) \<and>
       (\<forall>r\<in>set (security_identifiers (view db)).
          si_identifier_type r = t \<and> si_identifier_value r = v \<and>
          (si_valid_from r = None \<or> si_valid_from r = vf) \<longrightarrow> si_security_id r \<noteq> sid)"
  then have "case first_duplicate (view db) t v vf of None \<Rightarrow> False | Some x \<Rightarrow> x \<noteq> sid"
    by (intro duplicate_check_only_others) simp_all
  then show "add_identifier db sid t v p vf vt = (Inl (DuplicateSecurityError t v), connect db)"
    by (simp add: add_identifier_eq)
next
  assume "\<forall>r\<in>set (security_identifiers (view db)).
          si_identifier_type r = t \<and> si_identifier_value r = v \<and>
          (si_valid_from r = None \<or> si_valid_from r = vf) \<longrightarrow> si_security_id r = sid"
  then have "\<not> (case first_duplicate (view db) t v vf of None \<Rightarrow> False | Some x \<Rightarrow> x \<noteq> sid)"
    by (rule duplicate_check_no_other)
  then show "add_identifier db sid t v p vf vt =
         (case insert_security_identifier sid t v (if p then 1 else 0) vf vt
                 (view (connect db)) of
            Inl e \<Rightarrow> (Inl e, connect db)
          | Inr (rowid, T) \<Rightarrow> (Inr (), (connect db)\<lparr>conn := Some T, db_file := T\<rparr>))"
    by (simp add: add_identifier_eq)
next
  show "\<forall>e. fst (add_identifier db sid t v p vf vt) = Inl e \<longrightarrow>
          (e = DuplicateSecurityError t v \<or> (\<exists>m. e = DatabaseError m))
          \<and> snd (add_identifier db sid t v p vf vt) = connect db"
    using add_identifier_cases [of db sid t v p vf vt] by (rule conjunct1)
next
  assume ok: "fst (add_identifier db sid t v p vf vt) = Inr ()"
  from add_identifier_cases [of db sid t v p vf vt] ok
  have r: "security_identifiers (view (snd (add_identifier db sid t v p vf vt))) =
            security_identifiers (view db) @
              [\<lparr>si_id = next_rowid (seq_security_identifiers (view db))
                                   (map si_id (security_identifiers (view db))),
                si_security_id = sid, si_identifier_type = t, si_identifier_value = v,
                si_valid_from = vf, si_valid_to = vt,
                si_is_primary = (if p then 1 else 0)\<rparr>]
          \<and> db_file (snd (add_identifier db sid t v p vf vt)) =
              view (snd (add_identifier db sid t v p vf vt))
          \<and> securities (view (snd (add_identifier db sid t v p vf vt))) =
              securities (view db)"
    by (simp only: simp_thms)
  from r show "security_identifiers (view (snd (add_identifier db sid t v p vf vt))) =
            security_identifiers (view db) @
              [\<lparr>si_id = next_rowid (seq_security_identifiers (view db))
                                   (map si_id (security_identifiers (view db))),
                si_security_id = sid, si_identifier_type = t, si_identifier_value = v,
                si_valid_from = vf, si_valid_to = vt,
                si_is_primary = (if p then 1 else 0)\<rparr>]"
    by (rule conjunct1)
  from r show "db_file (snd (add_identifier db sid t v p vf vt)) =
              view (snd (add_identifier db sid t v p vf vt))"
    by (simp only:)
  from r show "securities (view (snd (add_identifier db sid t v p vf vt))) =
              securities (view db)"
    by (simp only:)
qed

theorem add_identifier_duplicate_check_witness:
  "add_identifier (open_db isin_tables) 2 ''ISIN'' ''US0378331005'' False
       (Some (2024, 3, 15)) None
     = (Inl (DuplicateSecurityError ''ISIN'' ''US0378331005''), open_db isin_tables)
   \<and> (\<exists>r\<in>set (security_identifiers isin_tables).
         si_identifier_type r = ''ISIN'' \<and> si_identifier_value r = ''US0378331005'' \<and>
         (si_valid_from r = None \<or> si_valid_from r = Some (2024, 3, 15)) \<and>
         si_security_id r \<noteq> 2)
   \<and> fst (add_identifier (open_db isin_tables) 1 ''ISIN'' ''US0378331005'' False None None)
     = Inr ()
   \<and> map si_security_id (security_identifiers (view (snd
        (add_identifier (open_db isin_tables) 1 ''ISIN'' ''US0378331005'' False None None))))
     = [1, 1]
   \<and> fst (add_identifier (open_db isin_tables) 2 ''ISIN'' ''US5949181045'' True
            (Some (2024, 3, 15)) None) = Inr ()
   \<and> map si_identifier_value (security_identifiers (db_file (snd
        (add_identifier (open_db isin_tables) 2 ''ISIN'' ''US5949181045'' True
            (Some (2024, 3, 15)) None))))
     = [''US0378331005'', ''US5949181045'']"
proof -
  note thm2 = add_identifier_duplicate_check
      [of "open_db isin_tables" 2 "''ISIN''" "''US0378331005''" False "Some (2024, 3, 15)" None]
  note thm1 = add_identifier_duplicate_check
      [of "open_db isin_tables" 1 "''ISIN''" "''US0378331005''" False None None]
  note thm3 = add_identifier_duplicate_check
      [of "open_db isin_tables" 2 "''ISIN''" "''US5949181045''" True "Some (2024, 3, 15)" None]
  from thm2 have a: "add_identifier (open_db isin_tables) 2 ''ISIN'' ''US0378331005'' False
       (Some (2024, 3, 15)) None
     = (Inl (DuplicateSecurityError ''ISIN'' ''US0378331005''), open_db isin_tables)"
    by (simp add: view_open_db connect_open_db isin_tables_def initial_tables_def)
  from a thm2 have a': "\<exists>r\<in>set (security_identifiers isin_tables).
         si_identifier_type r = ''ISIN'' \<and> si_identifier_value r = ''US0378331005'' \<and>
         (si_valid_from r = None \<or> si_valid_from r = Some (2024, 3, 15)) \<and>
         si_security_id r \<noteq> 2"
    by (simp add: view_open_db)
  from thm1 have b: "fst (add_identifier (open_db isin_tables) 1 ''ISIN'' ''US0378331005''
       False None None) = Inr ()"
    by (simp add: view_open_db connect_open_db isin_tables_def initial_tables_def
        insert_security_identifier_def unique_violation_def foreign_key_violation_def
        DEFAULT_IDENTIFIER_TYPES_def Let_def)
  from thm3 have c: "fst (add_identifier (open_db isin_tables) 2 ''ISIN'' ''US5949181045'' True
            (Some (2024, 3, 15)) None) = Inr ()"
    by (simp add: view_open_db connect_open_db isin_tables_def initial_tables_def
        insert_security_identifier_def unique_violation_def foreign_key_violation_def
        DEFAULT_IDENTIFIER_TYPES_def Let_def)
  note rows1 = thm1 [THEN conjunct2, THEN conjunct2, THEN conjunct2, THEN conjunct2,
      THEN mp, OF b, THEN conjunct1]
  have d: "map si_security_id (security_identifiers (view (snd
        (add_identifier (open_db isin_tables) 1 ''ISIN'' ''US0378331005'' False None None))))
     = [1, 1]"
    unfolding rows1 by (simp add: view_open_db isin_tables_def initial_tables_def)
  note rows3 = thm3 [THEN conjunct2, THEN conjunct2, THEN conjunct2, THEN conjunct2,
      THEN mp, OF c, THEN conjunct1]
  note file3 = thm3 [THEN conjunct2, THEN conjunct2, THEN conjunct2, THEN conjunct2,
      THEN mp, OF c, THEN conjunct2, THEN conjunct1]
  have e: "map si_identifier_value (security_identifiers (db_file (snd
        (add_identifier (open_db isin_tables) 2 ''ISIN'' ''US5949181045'' True
            (Some (2024, 3, 15)) None))))
     = [''US0378331005'', ''US5949181045'']"
    unfolding file3 rows3 by (simp add: view_open_db isin_tables_def initial_tables_def)
  from a a' b c d e show ?thesis by (intro conjI)
qed

text \<open>
  When matching rows belong both to the same and to a different security, only the row
  that the check fetches is compared.  In the state below the undated row of security 1
  is fetched before the dated row of security 2.  Security 1 then passes the check with
  the start date that security 2 holds, and its insert is rejected by the \<^verbatim>\<open>UNIQUE\<close>
  constraint with a \<^verbatim>\<open>DatabaseError\<close>; security 2 is refused on account of the undated
  row.  The state is what two calls of \<^verbatim>\<open>add_identifier\<close> produce.
\<close>

lemma dated_first_tables_reachable:
  "snd (add_identifier
         (snd (add_identifier
                (snd (create (snd (create (connect fresh_db) ''Security 1'' None None None))
                        ''Security 2'' None None None))
                2 ''ISIN'' ''US0378331005'' False (Some (2024, 3, 15)) None))
         1 ''ISIN'' ''US0378331005'' False None None)
   = open_db dated_first_tables"
  unfolding connect_fresh_db
  by (simp add: create_eq add_identifier_eq first_duplicate_filter connect_def view_def
      open_db_def next_rowid_def Let_def insert_security_identifier_def unique_violation_def
      foreign_key_violation_def dated_first_tables_def initial_tables_def
      DEFAULT_IDENTIFIER_TYPES_def)

lemma add_identifier_dated_first:
  "fst (add_identifier (open_db dated_first_tables) 1 ''ISIN'' ''US0378331005'' False
          (Some (2024, 3, 15)) None)
     = Inl (DatabaseError (''SQL execution failed: UNIQUE constraint failed: '' @
               ''security_identifiers.identifier_type, '' @
               ''security_identifiers.identifier_value, security_identifiers.valid_from''))"
  "fst (add_identifier (open_db dated_first_tables) 2 ''ISIN'' ''US0378331005'' False
          (Some (2024, 3, 15)) None)
     = Inl (DuplicateSecurityError ''ISIN'' ''US0378331005'')"
  by (simp_all add: add_identifier_eq first_duplicate_filter view_open_db connect_open_db
      insert_security_identifier_def unique_violation_def dated_first_tables_def
      initial_tables_def)


section \<open>Properties of \<^verbatim>\<open>resolve_or_create\<close>\<close>

lemmas eval_defs = resolve_or_create_eq create_eq add_identifier_eq first_duplicate_filter
  resolve_fst connect_def view_def open_db_def resolve_where_def interval_contains_def
  order_by_def next_rowid_def Let_def insert_security_identifier_def unique_violation_def
  foreign_key_violation_def

text \<open>
  What holds of the get-or-insert: an existing association is returned and nothing is
  written; an id that \<^verbatim>\<open>resolve_or_create\<close> returns is what \<^verbatim>\<open>resolve\<close> finds afterwards;
  and after a call that returned an id, a second call returns the same id and leaves the
  state alone, whatever name it is given.
\<close>

lemma resolve_or_create_existing:
  assumes "fst (resolve db v t None today) = Some sid"
  shows "resolve_or_create db v t name description asset_class currency today
           = (Inr sid, connect db)"
  by (simp add: resolve_or_create_eq assms)

lemma resolve_append_new:
  assumes none: "fst (resolve db v t None today) = None"
    and rows: "security_identifiers (view db') = security_identifiers (view db) @
              [\<lparr>si_id = i, si_security_id = sid, si_identifier_type = t,
                si_identifier_value = v, si_valid_from = None, si_valid_to = None,
                si_is_primary = p\<rparr>]"
  shows "fst (resolve db' v t None today) = Some sid"
proof -
  from none have "order_by valid_from_desc
      (filter (resolve_where t v today) (security_identifiers (view db))) = []"
    by (simp add: resolve_fst split: list.splits)
  then have "filter (resolve_where t v today) (security_identifiers (view db)) = []"
    by (simp only: order_by_Nil_iff)
  then show ?thesis
    by (simp add: resolve_fst rows resolve_where_def interval_contains_def order_by_def)
qed

lemma resolve_or_create_round_trip:
  assumes ok: "resolve_or_create db v t name description asset_class currency today = (Inr sid, db')"
  shows "fst (resolve db' v t None today) = Some sid"
proof (cases "fst (resolve db v t None today)")
  case (Some x)
  with ok have "sid = x" and "db' = connect db"
    by (simp_all add: resolve_or_create_eq)
  with Some show ?thesis by (simp add: resolve_connect)
next
  case None
  show ?thesis
  proof (cases "name = []")
    case True
    with None ok show ?thesis by (simp add: resolve_or_create_eq)
  next
    case False
    obtain s2 db2 where cr: "create (connect db) name description asset_class currency = (Inr s2, db2)"
      and v2: "security_identifiers (view db2) = security_identifiers (view db)"
      by (simp add: create_eq Let_def view_def view_connect_frame [unfolded view_def])
    from None False ok cr
    have ai: "fst (add_identifier db2 s2 t v False None None) = Inr ()"
      and sid: "sid = s2" and db': "db' = snd (add_identifier db2 s2 t v False None None)"
      by (auto simp: resolve_or_create_eq split: prod.splits sum.splits)
    from ai add_identifier_cases [of db2 s2 t v False None None]
    have "security_identifiers (view db') = security_identifiers (view db2) @
              [\<lparr>si_id = next_rowid (seq_security_identifiers (view db2))
                                   (map si_id (security_identifiers (view db2))),
                si_security_id = s2, si_identifier_type = t, si_identifier_value = v,
                si_valid_from = None, si_valid_to = None, si_is_primary = 0\<rparr>]"
      unfolding db' by simp
    with v2 sid show ?thesis
      by (intro resolve_append_new [OF None]) simp
  qed
qed

lemma create_connected:
  "is_connected (snd (create db name description asset_class currency))"
  by (simp add: create_eq Let_def is_connected_def)

lemma add_identifier_connected:
  "is_connected (snd (add_identifier db sid t v p vf vt))"
  using connect_connected [of db]
  by (simp add: add_identifier_eq is_connected_def split: sum.splits prod.splits)

lemma resolve_or_create_connected:
  "is_connected (snd (resolve_or_create db v t name description asset_class currency today))"
proof -
  have c: "is_connected (connect db)"
    using connect_connected [of db] by (simp add: is_connected_def)
  show ?thesis
  proof (cases "fst (resolve db v t None today)")
    case (Some x)
    with c show ?thesis by (simp add: resolve_or_create_eq)
  next
    case None
    show ?thesis
    proof (cases "name = []")
      case True
      with None c show ?thesis by (simp add: resolve_or_create_eq)
    next
      case False
      obtain s2 db2 where
        cr: "create (connect db) name description asset_class currency = (Inr s2, db2)"
        by (simp add: create_eq Let_def)
      have "snd (resolve_or_create db v t name description asset_class currency today) =
            snd (add_identifier db2 s2 t v False None None)"
        using None False cr
        by (simp add: resolve_or_create_eq split: prod.splits sum.splits)
      then show ?thesis by (simp only: add_identifier_connected)
    qed
  qed
qed

lemma resolve_or_create_idempotent:
  assumes ok: "fst (resolve_or_create db v t name description asset_class currency today) = Inr sid"
  shows "resolve_or_create
           (snd (resolve_or_create db v t name description asset_class currency today))
           v t name' description' asset_class' currency' today
         = (Inr sid, snd (resolve_or_create db v t name description asset_class currency today))"
proof -
  let ?db' = "snd (resolve_or_create db v t name description asset_class currency today)"
  from ok have "resolve_or_create db v t name description asset_class currency today = (Inr sid, ?db')"
    by (simp add: prod_eq_iff)
  then have hit: "fst (resolve ?db' v t None today) = Some sid"
    by (rule resolve_or_create_round_trip)
  have "is_connected ?db'" by (rule resolve_or_create_connected)
  with hit show ?thesis
    by (simp add: resolve_or_create_existing connect_is_connected)
qed

text \<open>
  The state with the expired code is what the repository's own operations produce on a new
  database.
\<close>

lemma expired_tables_reachable:
  "snd (add_identifier (snd (create (connect fresh_db) ''Toyota'' None None None))
         1 ''JP_CODE'' ''7203'' False None (Some (2023, 12, 31)))
   = open_db expired_tables"
  unfolding connect_fresh_db
  by (simp add: eval_defs expired_tables_def initial_tables_def DEFAULT_IDENTIFIER_TYPES_def)

text \<open>
  C1.  The creation step is not one unit.  \<^verbatim>\<open>create\<close> commits the new security before
  \<^verbatim>\<open>add_identifier\<close> runs.  Here \<^verbatim>\<open>resolve\<close> finds nothing on 2024-06-15, because the
  only association for the code has expired, and the name is not empty; the security is
  inserted and committed; then the duplicate check of \<^verbatim>\<open>add_identifier\<close> finds the expired
  row, which has no \<^verbatim>\<open>valid_from\<close> and belongs to another security.  The call ends with
  \<^verbatim>\<open>DuplicateSecurityError\<close>, not wrapped in \<^verbatim>\<open>TransactionError\<close>, and the committed
  database holds the new security without any identifier.
\<close>

theorem resolve_or_create_orphan_security:
  "fst (resolve (open_db expired_tables) ''7203'' ''JP_CODE'' None (2024, 6, 15)) = None
   \<and> fst (resolve_or_create (open_db expired_tables) ''7203'' ''JP_CODE'' ''Toyota Motor''
            None None None (2024, 6, 15))
       = Inl (DuplicateSecurityError ''JP_CODE'' ''7203'')
   \<and> map s_name (securities (db_file (snd
         (resolve_or_create (open_db expired_tables) ''7203'' ''JP_CODE'' ''Toyota Motor''
            None None None (2024, 6, 15)))))
       = [''Toyota'', ''Toyota Motor'']
   \<and> security_identifiers (db_file (snd
         (resolve_or_create (open_db expired_tables) ''7203'' ''JP_CODE'' ''Toyota Motor''
            None None None (2024, 6, 15))))
       = security_identifiers expired_tables"
  by (simp add: eval_defs expired_tables_def initial_tables_def)

text \<open>
  C4.  On the same state a second call with the same value and type creates a second
  security: each call inserts and commits a security before it fails, so that two calls
  leave the securities 2 and 3 beside the original one.
\<close>

theorem resolve_or_create_twice_two_securities:
  "fst (resolve_or_create (open_db expired_tables) ''7203'' ''JP_CODE'' ''Toyota Motor''
          None None None (2024, 6, 15))
     = Inl (DuplicateSecurityError ''JP_CODE'' ''7203'')
   \<and> fst (resolve_or_create
            (snd (resolve_or_create (open_db expired_tables) ''7203'' ''JP_CODE''
                    ''Toyota Motor'' None None None (2024, 6, 15)))
            ''7203'' ''JP_CODE'' ''Toyota Motor Corp'' None None None (2024, 6, 15))
     = Inl (DuplicateSecurityError ''JP_CODE'' ''7203'')
   \<and> map s_security_id (securities (view (open_db expired_tables))) = [1]
   \<and> map s_security_id (securities (view
        (snd (resolve_or_create
               (snd (resolve_or_create (open_db expired_tables) ''7203'' ''JP_CODE''
                       ''Toyota Motor'' None None None (2024, 6, 15)))
               ''7203'' ''JP_CODE'' ''Toyota Motor Corp'' None None None (2024, 6, 15)))))
     = [1, 2, 3]"
  by (simp add: eval_defs expired_tables_def initial_tables_def)

text \<open>
  The same happens when the storage layer rejects the identifier, for instance for a type
  that \<^verbatim>\<open>identifier_types\<close> does not list: the security stays, the identifier is missing,
  and the error is a plain \<^verbatim>\<open>DatabaseError\<close>.
\<close>

lemma resolve_or_create_unregistered_type:
  "fst (resolve_or_create (open_db initial_tables) ''TM.N'' ''RIC'' ''Toyota Motor''
          None None None (2024, 6, 15))
     = Inl (DatabaseError ''SQL execution failed: FOREIGN KEY constraint failed'')"
  "map s_name (securities (db_file (snd
     (resolve_or_create (open_db initial_tables) ''TM.N'' ''RIC'' ''Toyota Motor''
          None None None (2024, 6, 15))))) = [''Toyota Motor'']"
  "security_identifiers (db_file (snd
     (resolve_or_create (open_db initial_tables) ''TM.N'' ''RIC'' ''Toyota Motor''
          None None None (2024, 6, 15)))) = []"
  by (simp_all add: eval_defs initial_tables_def DEFAULT_IDENTIFIER_TYPES_def)

section \<open>Properties of the \<^verbatim>\<open>best_prices\<close> view\<close>

lemma price_join_iff:
  "(p, ds) \<in> set (price_join T) \<longleftrightarrow>
     p \<in> set (price_data T) \<and> ds \<in> set (data_sources T) \<and> p_source_id p = ds_source_id ds"
  by (auto simp: price_join_def)

lemma candidates_iff:
  "(p, ds) \<in> set (best_price_candidates T sec d) \<longleftrightarrow>
     p \<in> set (price_data T) \<and> ds \<in> set (data_sources T) \<and> p_source_id p = ds_source_id ds
     \<and> p_security_id p = sec \<and> p_price_date p = d \<and> ds_is_active ds = 1"
  by (auto simp: best_price_candidates_def price_join_iff)

lemma best_price_id_eq:
  "best_price_id T p =
     (case order_by priority_asc
             (best_price_candidates T (p_security_id p) (p_price_date p)) of
        [] \<Rightarrow> []
      | m # _ \<Rightarrow> [p_id (fst m)])"
  by (simp add: best_price_id_def split: list.splits prod.splits)

lemma priority_asc_head:
  assumes "order_by priority_asc xs = m # rest"
  shows "m \<in> set xs \<and> (\<forall>x\<in>set xs. ds_priority (snd m) \<le> ds_priority (snd x))"
proof -
  have "\<forall>x\<in>set xs. \<not> priority_asc x m"
    using assms
    by (rule order_by_head_first [rotated 3]) (auto simp: priority_asc_def)
  then show ?thesis
    using order_by_head_mem [OF assms] by (auto simp: priority_asc_def not_less)
qed

lemma distinct_map_eq:
  "distinct (map f xs) \<Longrightarrow> x \<in> set xs \<Longrightarrow> y \<in> set xs \<Longrightarrow> f x = f y \<Longrightarrow> x = y"
  by (auto simp: distinct_map dest: inj_onD)

lemma distinct_price_join:
  assumes "distinct (data_sources T)"
  shows "distinct ps \<Longrightarrow>
     distinct (concat (map (\<lambda>p. map (\<lambda>ds. (p, ds))
                          (filter (\<lambda>ds. p_source_id p = ds_source_id ds) (data_sources T)))
                 ps))"
proof (induction ps)
  case Nil
  then show ?case by simp
next
  case (Cons p ps)
  have "distinct (map (\<lambda>ds. (p, ds))
          (filter (\<lambda>ds. p_source_id p = ds_source_id ds) (data_sources T)))"
    using assms by (simp add: distinct_map inj_on_def)
  with Cons show ?case by auto
qed

lemma no_pairs_Nil:
  assumes "\<And>a b. (a, b) \<notin> set xs"
  shows "xs = []"
proof (cases xs)
  case Nil
  then show ?thesis .
next
  case (Cons x ys)
  obtain a b where "x = (a, b)" by (cases x)
  with Cons assms [of a b] show ?thesis by simp
qed

lemma best_prices_for_iff:
  "(p, ds) \<in> set (best_prices_for T sec d) \<longleftrightarrow>
     (p, ds) \<in> set (best_price_candidates T sec d) \<and>
     (\<exists>m rest. order_by priority_asc (best_price_candidates T sec d) = m # rest
               \<and> p_id p = p_id (fst m))"
  by (auto simp: best_prices_for_def best_prices_rows_def candidates_iff price_join_iff
      best_price_id_eq split: list.splits)

text \<open>
  C8.  The tables' primary keys make the ids of \<^verbatim>\<open>price_data\<close> and of \<^verbatim>\<open>data_sources\<close>
  distinct.  Then, for every security and date, each row the view keeps is a price row of
  an active source whose priority is the least among all rows of active sources for that
  security and date; the view keeps at most one row, and it keeps none exactly when no
  active source has a row.  Rows of inactive sources never appear.  The view is a function
  of the table contents and returns rows only: evaluating it changes nothing, and after a
  source is deactivated the same price rows give a different selection.
\<close>

theorem best_prices_minimum_priority:
  assumes ids: "distinct (map p_id (price_data T))"
    and sources: "distinct (map ds_source_id (data_sources T))"
  shows "(\<forall>(p, ds)\<in>set (best_prices_for T sec d).
            p \<in> set (price_data T) \<and> ds \<in> set (data_sources T)
            \<and> p_source_id p = ds_source_id ds
            \<and> p_security_id p = sec \<and> p_price_date p = d \<and> ds_is_active ds = 1
            \<and> (\<forall>p'\<in>set (price_data T). \<forall>ds'\<in>set (data_sources T).
                  p_source_id p' = ds_source_id ds' \<and> p_security_id p' = sec
                  \<and> p_price_date p' = d \<and> ds_is_active ds' = 1
                  \<longrightarrow> ds_priority ds \<le> ds_priority ds'))
    \<and> length (best_prices_for T sec d) \<le> 1
    \<and> (best_prices_for T sec d = [] \<longleftrightarrow>
          \<not> (\<exists>p\<in>set (price_data T). \<exists>ds\<in>set (data_sources T).
                p_source_id p = ds_source_id ds \<and> p_security_id p = sec
                \<and> p_price_date p = d \<and> ds_is_active ds = 1))"
proof (intro conjI)
  let ?cands = "best_price_candidates T sec d"
  let ?sorted = "order_by priority_asc ?cands"
  have kept_is_head: "x = m"
    if x: "x \<in> set (best_prices_for T sec d)" and s: "?sorted = m # rest" for x m rest
  proof -
    obtain p ds where xp: "x = (p, ds)" by (cases x)
    obtain pm dsm where mp: "m = (pm, dsm)" by (cases m)
    from x xp s have c: "(p, ds) \<in> set ?cands" and i: "p_id p = p_id pm"
      by (auto simp: best_prices_for_iff mp)
    from priority_asc_head [OF s] mp have cm: "(pm, dsm) \<in> set ?cands" by simp
    from c cm i ids have "p = pm"
      by (auto simp: candidates_iff intro: distinct_map_eq)
    moreover from c cm \<open>p = pm\<close> sources have "ds = dsm"
      by (auto simp: candidates_iff intro: distinct_map_eq [of ds_source_id "data_sources T"])
    ultimately show ?thesis by (simp add: xp mp)
  qed
  show "\<forall>(p, ds)\<in>set (best_prices_for T sec d).
            p \<in> set (price_data T) \<and> ds \<in> set (data_sources T)
            \<and> p_source_id p = ds_source_id ds
            \<and> p_security_id p = sec \<and> p_price_date p = d \<and> ds_is_active ds = 1
            \<and> (\<forall>p'\<in>set (price_data T). \<forall>ds'\<in>set (data_sources T).
                  p_source_id p' = ds_source_id ds' \<and> p_security_id p' = sec
                  \<and> p_price_date p' = d \<and> ds_is_active ds' = 1
                  \<longrightarrow> ds_priority ds \<le> ds_priority ds')"
  proof (intro ballI, clarify)
    fix p ds
    assume x: "(p, ds) \<in> set (best_prices_for T sec d)"
    then have c: "(p, ds) \<in> set ?cands"
      and "\<exists>m rest. ?sorted = m # rest" by (auto simp: best_prices_for_iff)
    then obtain m rest where s: "?sorted = m # rest" by blast
    from kept_is_head [OF x s] have m: "m = (p, ds)" by simp
    from priority_asc_head [OF s] m
    have min: "\<forall>y\<in>set ?cands. ds_priority ds \<le> ds_priority (snd y)" by simp
    have "\<forall>p'\<in>set (price_data T). \<forall>ds'\<in>set (data_sources T).
                  p_source_id p' = ds_source_id ds' \<and> p_security_id p' = sec
                  \<and> p_price_date p' = d \<and> ds_is_active ds' = 1
                  \<longrightarrow> ds_priority ds \<le> ds_priority ds'"
    proof (intro ballI impI)
      fix p' ds'
      assume "p' \<in> set (price_data T)" "ds' \<in> set (data_sources T)"
        "p_source_id p' = ds_source_id ds' \<and> p_security_id p' = sec
                  \<and> p_price_date p' = d \<and> ds_is_active ds' = 1"
      then have "(p', ds') \<in> set ?cands" by (simp add: candidates_iff)
      with min show "ds_priority ds \<le> ds_priority ds'" by force
    qed
    with c show "p \<in> set (price_data T) \<and> ds \<in> set (data_sources T)
            \<and> p_source_id p = ds_source_id ds
            \<and> p_security_id p = sec \<and> p_price_date p = d \<and> ds_is_active ds = 1
            \<and> (\<forall>p'\<in>set (price_data T). \<forall>ds'\<in>set (data_sources T).
                  p_source_id p' = ds_source_id ds' \<and> p_security_id p' = sec
                  \<and> p_price_date p' = d \<and> ds_is_active ds' = 1
                  \<longrightarrow> ds_priority ds \<le> ds_priority ds')"
      by (simp add: candidates_iff)
  qed
  show "length (best_prices_for T sec d) \<le> 1"
  proof -
    from ids have dp: "distinct (price_data T)" by (simp add: distinct_map)
    from sources have dd: "distinct (data_sources T)" by (simp add: distinct_map)
    have "distinct (price_join T)"
      unfolding price_join_def using dd dp by (rule distinct_price_join)
    then have dist: "distinct (best_prices_for T sec d)"
      by (simp add: best_prices_for_def best_prices_rows_def)
    show ?thesis
    proof (cases ?sorted)
      case Nil
      then have "?cands = []" by (simp only: order_by_Nil_iff)
      then have "best_prices_for T sec d = []"
        by (intro no_pairs_Nil) (simp add: best_prices_for_iff)
      then show ?thesis by simp
    next
      case (Cons m rest)
      then have "set (best_prices_for T sec d) \<subseteq> {m}"
        using kept_is_head by blast
      then have "card (set (best_prices_for T sec d)) \<le> 1"
        by (metis card.empty card_insert_if card_mono empty_iff finite.emptyI finite.insertI
            le_numeral_extra(4) One_nat_def)
      with dist show ?thesis by (simp add: distinct_card)
    qed
  qed
  show "best_prices_for T sec d = [] \<longleftrightarrow>
          \<not> (\<exists>p\<in>set (price_data T). \<exists>ds\<in>set (data_sources T).
                p_source_id p = ds_source_id ds \<and> p_security_id p = sec
                \<and> p_price_date p = d \<and> ds_is_active ds = 1)"
  proof
    assume e: "best_prices_for T sec d = []"
    have "?cands = []"
    proof (rule ccontr)
      assume "?cands \<noteq> []"
      then obtain m rest where s: "?sorted = m # rest"
        by (cases ?sorted) (simp_all add: order_by_Nil_iff)
      obtain pm dsm where mp: "m = (pm, dsm)" by (cases m)
      from priority_asc_head [OF s] mp have "(pm, dsm) \<in> set ?cands" by simp
      with s mp have "(pm, dsm) \<in> set (best_prices_for T sec d)"
        by (auto simp: best_prices_for_iff)
      with e show False by simp
    qed
    then have "\<forall>p ds. (p, ds) \<notin> set ?cands" by simp
    then show "\<not> (\<exists>p\<in>set (price_data T). \<exists>ds\<in>set (data_sources T).
                p_source_id p = ds_source_id ds \<and> p_security_id p = sec
                \<and> p_price_date p = d \<and> ds_is_active ds = 1)"
      by (simp add: candidates_iff)
  next
    assume "\<not> (\<exists>p\<in>set (price_data T). \<exists>ds\<in>set (data_sources T).
                p_source_id p = ds_source_id ds \<and> p_security_id p = sec
                \<and> p_price_date p = d \<and> ds_is_active ds = 1)"
    then have "\<forall>p ds. (p, ds) \<notin> set ?cands" by (auto simp: candidates_iff)
    then show "best_prices_for T sec d = []"
      by (intro no_pairs_Nil) (simp add: best_prices_for_iff)
  qed
qed

lemma overlay_eval:
  "map (\<lambda>(p, ds). (p_id p, p_close p, ds_source_code ds, ds_priority ds))
       (best_prices_for overlay_tables 1 (2024, 3, 15)) = [(2, 2500, ''YFINANCE'', 10)]"
  "map (\<lambda>(p, ds). (p_id p, p_close p, ds_source_code ds, ds_priority ds))
       (best_prices_for overlay_tables_deactivated 1 (2024, 3, 15)) = [(1, 2510, ''EXCEL_IMPORT'', 50)]"
  "price_data overlay_tables_deactivated = price_data overlay_tables"
  "map bp_close (best_prices overlay_tables) = [2500]"
  by (simp_all add: best_prices_for_def best_prices_rows_def best_price_id_def
      best_price_candidates_def price_join_def priority_asc_def order_by_def
      overlay_tables_deactivated_def overlay_tables_def initial_tables_def best_prices_def)

theorem best_prices_minimum_priority_witness:
  "distinct (map p_id (price_data overlay_tables))
   \<and> distinct (map ds_source_id (data_sources overlay_tables))
   \<and> length (best_prices_for overlay_tables 1 (2024, 3, 15)) \<le> 1
   \<and> map (\<lambda>(p, ds). (p_id p, p_close p, ds_source_code ds, ds_priority ds))
         (best_prices_for overlay_tables 1 (2024, 3, 15)) = [(2, 2500, ''YFINANCE'', 10)]
   \<and> map (\<lambda>(p, ds). (p_id p, p_close p, ds_source_code ds, ds_priority ds))
         (best_prices_for overlay_tables_deactivated 1 (2024, 3, 15))
       = [(1, 2510, ''EXCEL_IMPORT'', 50)]
   \<and> price_data overlay_tables_deactivated = price_data overlay_tables"
proof -
  have h1: "distinct (map p_id (price_data overlay_tables))"
    by (simp add: overlay_tables_def initial_tables_def)
  have h2: "distinct (map ds_source_id (data_sources overlay_tables))"
    by (simp add: overlay_tables_def initial_tables_def)
  have "length (best_prices_for overlay_tables 1 (2024, 3, 15)) \<le> 1"
    using best_prices_minimum_priority [OF h1 h2, of 1 "(2024, 3, 15)"] by (elim conjE)
  with h1 h2 overlay_eval(1,2,3) show ?thesis by (intro conjI)
qed

end
